theory Spec2Isabelle
  imports Main "HOL-Library.Word"
begin

section \<open>Platform objects used by the content script\<close>

text \<open>
  The content script (\<^verbatim>\<open>src/content.ts\<close>, and its older sibling
  \<^verbatim>\<open>shadertoy-recorder/content.js\<close>) drives browser objects: media tracks, a
  MediaRecorder, blobs, the console, \<^verbatim>\<open>alert\<close> and an anchor element. Each of them is
  a value here, and every call the script makes on them is recorded, in order, as an
  \<open>effect\<close> in the trace of the page.
\<close>

datatype track_kind = Video | Audio

record track =
  track_id :: nat
  kind :: track_kind

record blob =
  blob_bytes :: "8 word list"
  blob_type :: string

definition size_of :: "blob \<Rightarrow> nat" where
  "size_of b = length (blob_bytes b)"

text \<open>
  \<^verbatim>\<open>new Blob(parts, { type })\<close>: the parts' bytes in the order of the array. The
  constructor keeps the type in ASCII lower case, and drops it when it holds a character
  outside U+0020 to U+007E.
\<close>

definition ascii_lowercase :: "char \<Rightarrow> char" where
  "ascii_lowercase c =
     (case map_of (zip ''ABCDEFGHIJKLMNOPQRSTUVWXYZ'' ''abcdefghijklmnopqrstuvwxyz'') c of
        Some l \<Rightarrow> l
      | None \<Rightarrow> c)"

definition printable :: "char \<Rightarrow> bool" where
  "printable c = (32 \<le> (of_char c :: nat) \<and> (of_char c :: nat) \<le> 126)"

definition normalized_type :: "string \<Rightarrow> string" where
  "normalized_type ty = (if list_all printable ty then map ascii_lowercase ty else [])"

definition new_Blob :: "blob list \<Rightarrow> string \<Rightarrow> blob" where
  "new_Blob parts ty =
     \<lparr>blob_bytes = concat (map blob_bytes parts), blob_type = normalized_type ty\<rparr>"

text \<open>
  A thrown value: an \<^verbatim>\<open>Error\<close> object with its message, or any other value with its
  \<^verbatim>\<open>String(err)\<close>. \<open>err_text\<close> is \<^verbatim>\<open>err instanceof Error ? err.message : String(err)\<close>.
\<close>

datatype js_thrown = Error_obj string | Other_value string

fun err_text :: "js_thrown \<Rightarrow> string" where
  "err_text (Error_obj m) = m"
| "err_text (Other_value s) = s"

datatype console_arg = Str string | Exn js_thrown | Evt

datatype recording_state = Inactive | Recording | Paused

record recorder =
  rstate :: recording_state
  stream :: "track list"
  mimeType :: string
  videoBitsPerSecond :: nat
  audioBitsPerSecond :: "nat option"
  timeslice :: "nat option"

record anchor =
  href :: blob
  download :: string

datatype effect =
    Alert string
  | Console_log "console_arg list"
  | Console_warn "console_arg list"
  | Console_error "console_arg list"
  | Get_user_media
  | Capture_stream nat
  | Track_stop track
  | Recorder_new recorder
  | Recorder_start recorder nat
  | Recorder_stop recorder
  | Blob_new blob
  | Create_object_url blob
  | Create_anchor
  | Append_child anchor
  | Anchor_click anchor
  | Set_timeout nat
  | Remove_child anchor
  | Revoke_object_url blob

text \<open>
  \<^verbatim>\<open>new MediaStream(tracks)\<close> adds each track of the sequence that the stream does not
  hold yet, so \<^verbatim>\<open>getTracks()\<close> lists every track once.
\<close>

fun new_MediaStream :: "track list \<Rightarrow> track list" where
  "new_MediaStream [] = []"
| "new_MediaStream (t # ts) = t # filter (\<lambda>u. u \<noteq> t) (new_MediaStream ts)"

text \<open>\<^verbatim>\<open>Array.prototype.find\<close>: the first element the predicate accepts.\<close>

fun array_find :: "('a \<Rightarrow> bool) \<Rightarrow> 'a list \<Rightarrow> 'a option" where
  "array_find p [] = None"
| "array_find p (x # xs) = (if p x then Some x else array_find p xs)"

text \<open>\<^verbatim>\<open>String.prototype.startsWith\<close>.\<close>

definition startsWith :: "string \<Rightarrow> string \<Rightarrow> bool" where
  "startsWith s p = (take (length p) s = p)"


section \<open>The timestamp of the file name\<close>

text \<open>
  \<^verbatim>\<open>new Date()\<close> is read through \<^verbatim>\<open>toISOString()\<close> only, which prints the UTC
  fields of the date. A date is therefore its UTC fields. \<open>toISOString\<close> follows
  ECMAScript: \<^verbatim>\<open>YYYY-MM-DDTHH:mm:ss.sssZ\<close>, the year with four digits from 0 to 9999
  and with a sign and six digits otherwise.
\<close>

record date =
  utc_year :: int
  utc_month :: nat
  utc_day :: nat
  utc_hours :: nat
  utc_minutes :: nat
  utc_seconds :: nat
  utc_milliseconds :: nat

definition digit :: "nat \<Rightarrow> char" where
  "digit d = ''0123456789'' ! (d mod 10)"

text \<open>The last \<open>w\<close> decimal digits of \<open>n\<close>, zero-padded on the left.\<close>

primrec pad :: "nat \<Rightarrow> nat \<Rightarrow> string" where
  "pad 0 n = []"
| "pad (Suc w) n = pad w (n div 10) @ [digit n]"

definition year_string :: "int \<Rightarrow> string" where
  "year_string y =
     (if 0 \<le> y \<and> y \<le> 9999 then pad 4 (nat y)
      else (if y < 0 then ''-'' else ''+'') @ pad 6 (nat \<bar>y\<bar>))"

definition toISOString :: "date \<Rightarrow> string" where
  "toISOString d =
     year_string (utc_year d) @ ''-'' @ pad 2 (utc_month d) @ ''-'' @ pad 2 (utc_day d)
       @ ''T'' @ pad 2 (utc_hours d) @ '':'' @ pad 2 (utc_minutes d) @ '':''
       @ pad 2 (utc_seconds d) @ ''.'' @ pad 3 (utc_milliseconds d) @ ''Z''"

text \<open>\<^verbatim>\<open>.replace(/[:.]/g, '-')\<close>: every colon and period.\<close>

definition replace_colons_periods :: "string \<Rightarrow> string" where
  "replace_colons_periods s =
     map (\<lambda>c. if c = CHR '':'' \<or> c = CHR ''.'' then CHR ''-'' else c) s"

text \<open>\<^verbatim>\<open>.replace('T', '_')\<close> with a string pattern: the first occurrence only.\<close>

fun replace_first :: "char \<Rightarrow> char \<Rightarrow> string \<Rightarrow> string" where
  "replace_first a b [] = []"
| "replace_first a b (c # cs) = (if c = a then b # cs else c # replace_first a b cs)"

definition timestamp :: "date \<Rightarrow> string" where
  "timestamp now =
     take 19 (replace_first CHR ''T'' CHR ''_'' (replace_colons_periods (toISOString now)))"


section \<open>The page: module variables and the trace of effects\<close>

record page =
  mediaRecorder :: "recorder option"
  recordedBlobs :: "blob list"
  trace :: "effect list"

definition emit :: "effect list \<Rightarrow> page \<Rightarrow> page" where
  "emit es st = st\<lparr>trace := trace st @ es\<rparr>"

text \<open>\<^verbatim>\<open>stream.getTracks().forEach(track => track.stop())\<close>.\<close>

definition stop_all :: "track list \<Rightarrow> page \<Rightarrow> page" where
  "stop_all ts st = emit (map Track_stop ts) st"

text \<open>The effects of a run: what \<open>st'\<close> has recorded beyond \<open>st\<close>.\<close>

definition since :: "page \<Rightarrow> page \<Rightarrow> effect list" where
  "since st st' = drop (length (trace st)) (trace st')"


section \<open>The recorder of \<^verbatim>\<open>src/content.ts\<close>\<close>

text \<open>
  What \<^verbatim>\<open>startRecording\<close> reads from the browser: the tracks of
  \<^verbatim>\<open>canvas.captureStream(60)\<close> (\<open>None\<close> when the page has no element
  \<^verbatim>\<open>demogl\<close>), the outcome of \<^verbatim>\<open>getUserMedia({ audio: true })\<close> (the value it
  rejects with, or the tracks of the stream), \<^verbatim>\<open>MediaRecorder.isTypeSupported\<close>, and
  the value the \<^verbatim>\<open>MediaRecorder\<close> constructor throws, if it throws.
\<close>

record env =
  canvas :: "track list option"
  getUserMedia :: "js_thrown + track list"
  isTypeSupported :: "string \<Rightarrow> bool"
  ctor_throws :: "js_thrown option"

definition mimeTypes :: "string list" where
  \<open>mimeTypes =
     [''video/mp4; codecs="avc1.42E01E, mp4a.40.2"'',
      ''video/webm; codecs="vp9, opus"'',
      ''video/webm; codecs="vp8, opus"'',
      ''video/webm; codecs="h264, opus"'',
      ''video/mp4'',
      ''video/webm'']\<close>

text \<open>The early \<^verbatim>\<open>return\<close>s of \<^verbatim>\<open>startRecording\<close>, in the order of the source.\<close>

datatype start_failure = CanvasNotFound | NoTracks | NoMimeType | CtorFailed

text \<open>
  The variables of one call of \<^verbatim>\<open>startRecording\<close> that the handlers it installs
  close over.
\<close>

record handlers =
  combinedStream :: "track list"
  selectedMimeType :: string

definition startRecording :: "env \<Rightarrow> page \<Rightarrow> (start_failure + handlers) \<times> page" where
  "startRecording e st0 =
    (case canvas e of
       None \<Rightarrow>
         (Inl CanvasNotFound,
          emit [Alert ''Canvas element with ID 'demogl' not found!'',
                Console_error [Str ''Canvas element with ID 'demogl' not found!'']] st0)
     | Some videoTracks \<Rightarrow>
        (let audioStream = (case getUserMedia e of Inr ts \<Rightarrow> Some ts | Inl err \<Rightarrow> None);
             st1 = emit (Get_user_media #
                     (case getUserMedia e of
                        Inr ts \<Rightarrow> [Console_log [Str ''Audio stream obtained successfully.'']]
                      | Inl err \<Rightarrow>
                          [Console_error [Str ''Could not get audio stream:'', Exn err],
                           Alert (''Could not get audio stream. Recording video only. Error: ''
                                    @ err_text err)])) st0;
             st2 = emit [Capture_stream 60,
                         Console_log [Str ''Video stream captured from canvas.'']] st1;
             st3 = st2\<lparr>recordedBlobs := []\<rparr>;
             tracksToCombine =
               videoTracks @ (case audioStream of Some ts \<Rightarrow> ts | None \<Rightarrow> []);
             st4 = emit [case audioStream of
                           Some ts \<Rightarrow> Console_log [Str ''Audio tracks added to combined stream.'']
                         | None \<Rightarrow> Console_warn [Str ''Proceeding with video-only recording as audio stream was not available or permission denied.'']]
                     st3
         in if tracksToCombine = [] then
              (Inl NoTracks,
               (case audioStream of Some ts \<Rightarrow> stop_all ts | None \<Rightarrow> (\<lambda>s. s))
                 (stop_all videoTracks
                   (emit [Alert ''No tracks available for recording. Cannot start MediaRecorder.'',
                          Console_error [Str ''No tracks available for recording.'']] st4)))
            else
              (let combined = new_MediaStream tracksToCombine in
               case array_find (isTypeSupported e) mimeTypes of
                 None \<Rightarrow>
                   (Inl NoMimeType,
                    stop_all combined
                      (emit [Alert ''No suitable MIME type found for MediaRecorder.'',
                             Console_error [Str ''No suitable MIME type found from the preferred list.'']]
                         st4))
               | Some selected \<Rightarrow>
                  (let st5 = emit [Console_log [Str ''Using MIME type:'', Str selected]] st4 in
                   case ctor_throws e of
                     Some ex \<Rightarrow>
                       (Inl CtorFailed,
                        stop_all combined
                          (emit [Alert (''Failed to create MediaRecorder: '' @ err_text ex),
                                 Console_error [Str ''Failed to create MediaRecorder:'', Exn ex]]
                             st5))
                   | None \<Rightarrow>
                      (let r = \<lparr>rstate = Inactive, stream = combined, mimeType = selected,
                                videoBitsPerSecond = 5000000,
                                audioBitsPerSecond =
                                  (case audioStream of Some ts \<Rightarrow> Some 128000 | None \<Rightarrow> None),
                                timeslice = None\<rparr>;
                           st6 = emit [Recorder_new r] st5;
                           st7 = emit [Recorder_start r 100,
                                       Console_log [Str ''Recording started (attempting audio and video)...'']]
                                   (st6\<lparr>mediaRecorder :=
                                          Some (r\<lparr>rstate := Recording, timeslice := Some 100\<rparr>)\<rparr>)
                       in (Inr \<lparr>combinedStream = combined, selectedMimeType = selected\<rparr>, st7))))))"

text \<open>
  \<^verbatim>\<open>mediaRecorder.start(100)\<close> stands outside the \<^verbatim>\<open>try\<close> block, and it may throw.
  It is reached in the runs that \<open>startRecording\<close> returns as started. When it throws,
  the run is the same up to that call: the recorder is constructed and assigned, the
  final \<^verbatim>\<open>console.log\<close> does not run, the recorder stays inactive, and the exception
  leaves \<^verbatim>\<open>startRecording\<close> with no statement left to stop the tracks.
\<close>

definition startRecording_start_throws :: "env \<Rightarrow> page \<Rightarrow> page" where
  "startRecording_start_throws e st0 =
     (case startRecording e st0 of
        (Inl failure, st) \<Rightarrow> st
      | (Inr h, st) \<Rightarrow>
          st\<lparr>mediaRecorder :=
                 map_option (\<lambda>r. r\<lparr>rstate := Inactive, timeslice := None\<rparr>) (mediaRecorder st),
             trace := butlast (trace st)\<rparr>)"

text \<open>\<^verbatim>\<open>mediaRecorder.ondataavailable\<close>; \<open>None\<close> is an event without \<^verbatim>\<open>data\<close>.\<close>

definition ondataavailable :: "blob option \<Rightarrow> page \<Rightarrow> page" where
  "ondataavailable data st =
     (case data of
        None \<Rightarrow> st
      | Some b \<Rightarrow> if size_of b > 0 then st\<lparr>recordedBlobs := recordedBlobs st @ [b]\<rparr> else st)"

text \<open>
  The file name of the download: \<^verbatim>\<open>.mp4\<close> unless the selected type starts with
  \<^verbatim>\<open>video/webm\<close>.
\<close>

definition fileExtension :: "string \<Rightarrow> string" where
  "fileExtension selected = (if startsWith selected ''video/webm'' then ''.webm'' else ''.mp4'')"

definition download_name :: "string \<Rightarrow> date \<Rightarrow> string" where
  "download_name selected now = ''shadertoy-recording_'' @ timestamp now @ fileExtension selected"

text \<open>
  The calls of the \<^verbatim>\<open>try\<close> block of \<^verbatim>\<open>onstop\<close>, in order. Any of them may
  throw; then the calls before it have run, the ones after it have not, and the
  \<^verbatim>\<open>catch\<close> block follows.
\<close>

datatype save_call =
  In_new_Blob | In_createObjectURL | In_createElement | In_appendChild | In_click | In_setTimeout

fun calls_before :: "save_call \<Rightarrow> nat" where
  "calls_before In_new_Blob = 0"
| "calls_before In_createObjectURL = 1"
| "calls_before In_createElement = 2"
| "calls_before In_appendChild = 3"
| "calls_before In_click = 4"
| "calls_before In_setTimeout = 5"

type_synonym fault = "(save_call \<times> js_thrown) option"

definition save_calls :: "handlers \<Rightarrow> date \<Rightarrow> blob list \<Rightarrow> effect list" where
  "save_calls h now blobs =
     (let b = new_Blob blobs (selectedMimeType h);
          a = \<lparr>href = b, download = download_name (selectedMimeType h) now\<rparr>
      in [Blob_new b, Create_object_url b, Create_anchor, Append_child a, Anchor_click a,
          Set_timeout 100])"

definition save_effects :: "handlers \<Rightarrow> date \<Rightarrow> fault \<Rightarrow> blob list \<Rightarrow> effect list" where
  "save_effects h now fault blobs =
     (case fault of
        None \<Rightarrow> save_calls h now blobs
      | Some (c, ex) \<Rightarrow>
          take (calls_before c) (save_calls h now blobs) @
          [Console_error [Str ''Error saving video:'', Exn ex],
           Alert ''Error saving video. Please try again. Check console for details.''])"

definition save_video :: "handlers \<Rightarrow> date \<Rightarrow> fault \<Rightarrow> page \<Rightarrow> page" where
  "save_video h now fault st = emit (save_effects h now fault (recordedBlobs st)) st"

text \<open>The callback that \<^verbatim>\<open>onstop\<close> hands to \<^verbatim>\<open>setTimeout\<close>.\<close>

definition download_cleanup :: "anchor \<Rightarrow> page \<Rightarrow> page" where
  "download_cleanup a st =
     emit [Remove_child a, Revoke_object_url (href a),
           Console_log [Str ''Download link revoked and element removed.'']] st"

definition onstop :: "handlers \<Rightarrow> date \<Rightarrow> fault \<Rightarrow> page \<Rightarrow> page" where
  "onstop h now fault st0 =
     (let st1 = emit [Console_log [Str ''MediaRecorder stopped.'']] st0;
          st2 = (if recordedBlobs st1 = [] then
                   emit [Console_warn [Str ''No data was recorded.'']] st1
                 else save_video h now fault st1);
          st3 = stop_all (combinedStream h) st2;
          st4 = emit [Console_log [Str ''All tracks stopped (onstop).'']] st3
      in st4\<lparr>mediaRecorder := None\<rparr>)"

text \<open>\<^verbatim>\<open>mediaRecorder.onerror\<close>; the argument is \<^verbatim>\<open>event.error\<close>, when the event has one.\<close>

definition onerror :: "handlers \<Rightarrow> js_thrown option \<Rightarrow> page \<Rightarrow> page" where
  "onerror h err st0 =
     (let st1 = emit [Console_error [Str ''MediaRecorder error:'',
                                     (case err of Some ex \<Rightarrow> Exn ex | None \<Rightarrow> Evt)],
                      Alert ''MediaRecorder error. Recording cannot continue. Check console for details.'']
                  st0;
          st2 = stop_all (combinedStream h) st1;
          st3 = emit [Console_log [Str ''All tracks stopped (MediaRecorder error).'']] st2
      in st3\<lparr>mediaRecorder := None\<rparr>)"

text \<open>
  \<^verbatim>\<open>stopRecording\<close>. \<^verbatim>\<open>MediaRecorder.stop()\<close> makes the recorder inactive at once; its
  \<^verbatim>\<open>stop\<close> event comes later.
\<close>

definition stopRecording :: "page \<Rightarrow> page" where
  "stopRecording st =
     (case mediaRecorder st of
        Some r \<Rightarrow>
          if rstate r = Recording \<or> rstate r = Paused then
            emit [Recorder_stop r,
                  Console_log [Str ''Stop recording signal sent to MediaRecorder.'']]
              (st\<lparr>mediaRecorder := Some (r\<lparr>rstate := Inactive\<rparr>)\<rparr>)
          else
            emit [Console_warn [Str ''stopRecording called but mediaRecorder not active or not initialized properly.'']] st
      | None \<Rightarrow>
          emit [Console_warn [Str ''stopRecording called but mediaRecorder not active or not initialized properly.'']] st)"


section \<open>The recorder of \<^verbatim>\<open>shadertoy-recorder/content.js\<close>\<close>

text \<open>
  The older script records the canvas only. It has no \<^verbatim>\<open>try\<close> around the
  \<^verbatim>\<open>MediaRecorder\<close> constructor, so what the constructor throws leaves
  \<^verbatim>\<open>startRecording\<close> uncaught; its handlers close over \<^verbatim>\<open>stream\<close> (held in
  \<open>combinedStream\<close> here) and \<^verbatim>\<open>selectedMimeType\<close>.
\<close>

definition legacy_mimeTypes :: "string list" where
  "legacy_mimeTypes =
     [''video/mp4'', ''video/webm;codecs=h264'', ''video/webm;codecs=vp9'', ''video/webm'']"

datatype legacy_failure = Legacy_canvas_not_found | Legacy_uncaught js_thrown

definition legacy_startRecording :: "env \<Rightarrow> page \<Rightarrow> (legacy_failure + handlers) \<times> page" where
  "legacy_startRecording e st0 =
    (case canvas e of
       None \<Rightarrow> (Inl Legacy_canvas_not_found, emit [Alert ''Canvas not found!''] st0)
     | Some tracks \<Rightarrow>
        (let st1 = emit [Capture_stream 60] st0;
             st2 = st1\<lparr>recordedBlobs := []\<rparr>;
             selected = (case array_find (isTypeSupported e) legacy_mimeTypes of
                           Some m \<Rightarrow> m
                         | None \<Rightarrow> ''video/webm'');
             st3 = emit [Console_log [Str ''Using MIME type:'', Str selected]] st2
         in case ctor_throws e of
              Some ex \<Rightarrow> (Inl (Legacy_uncaught ex), st3)
            | None \<Rightarrow>
               (let r = \<lparr>rstate = Inactive, stream = tracks, mimeType = selected,
                         videoBitsPerSecond = 5000000, audioBitsPerSecond = None,
                         timeslice = None\<rparr>;
                    st4 = emit [Recorder_new r] st3;
                    st5 = emit [Recorder_start r 100, Console_log [Str ''Recording started...'']]
                            (st4\<lparr>mediaRecorder :=
                                   Some (r\<lparr>rstate := Recording, timeslice := Some 100\<rparr>)\<rparr>)
                in (Inr \<lparr>combinedStream = tracks, selectedMimeType = selected\<rparr>, st5))))"

definition legacy_download_name :: "date \<Rightarrow> string" where
  "legacy_download_name now = ''shadertoy-recording_'' @ timestamp now @ ''.mp4''"

definition legacy_save_calls :: "handlers \<Rightarrow> date \<Rightarrow> blob list \<Rightarrow> effect list" where
  "legacy_save_calls h now blobs =
     (let b = new_Blob blobs (selectedMimeType h);
          a = \<lparr>href = b, download = legacy_download_name now\<rparr>
      in [Blob_new b, Create_object_url b, Create_anchor, Append_child a, Anchor_click a,
          Set_timeout 100])"

definition legacy_onstop :: "handlers \<Rightarrow> date \<Rightarrow> fault \<Rightarrow> page \<Rightarrow> page" where
  "legacy_onstop h now fault st =
     (if recordedBlobs st = [] then emit [Console_error [Str ''No data was recorded'']] st
      else
        (case fault of
           None \<Rightarrow> emit (legacy_save_calls h now (recordedBlobs st)) st
         | Some (c, ex) \<Rightarrow>
             emit (take (calls_before c) (legacy_save_calls h now (recordedBlobs st)) @
                   [Console_error [Str ''Error saving video:'', Exn ex],
                    Alert ''Error saving video. Please try again.''])
               st))"

text \<open>The callback of the older \<^verbatim>\<open>onstop\<close>'s \<^verbatim>\<open>setTimeout\<close>: it also stops the tracks.\<close>

definition legacy_cleanup :: "handlers \<Rightarrow> anchor \<Rightarrow> page \<Rightarrow> page" where
  "legacy_cleanup h a st =
     stop_all (combinedStream h) (emit [Remove_child a, Revoke_object_url (href a)] st)"

definition legacy_stopRecording :: "page \<Rightarrow> page" where
  "legacy_stopRecording st =
     (case mediaRecorder st of
        Some r \<Rightarrow>
          if rstate r = Recording then
            emit [Recorder_stop r, Console_log [Str ''Recording stopped.'']]
              (st\<lparr>mediaRecorder := Some (r\<lparr>rstate := Inactive\<rparr>)\<rparr>)
          else st
      | None \<Rightarrow> st)"


section \<open>Sessions and what a trace shows\<close>

text \<open>
  A session of \<^verbatim>\<open>src/content.ts\<close>: one call of \<^verbatim>\<open>startRecording\<close>; then, when it
  started the recorder, any number of \<^verbatim>\<open>dataavailable\<close> events and calls of
  \<^verbatim>\<open>stopRecording\<close>; then what ends it: the \<^verbatim>\<open>stop\<close> event, or the \<^verbatim>\<open>error\<close>
  event alone, or, as the browser does when the encoder faults, the \<^verbatim>\<open>error\<close> event
  followed on the same recorder by further events and calls and then the \<^verbatim>\<open>stop\<close>
  event. Neither handler looks whether the other has run.
\<close>

datatype call = Data "blob option" | Stop_request

datatype ending =
    Stop_event date fault
  | Error_event "js_thrown option"
  | Error_then_stop "js_thrown option" "call list" date fault

fun during :: "call \<Rightarrow> page \<Rightarrow> page" where
  "during (Data d) st = ondataavailable d st"
| "during Stop_request st = stopRecording st"

fun finish :: "handlers \<Rightarrow> ending \<Rightarrow> page \<Rightarrow> page" where
  "finish h (Stop_event now fault) st = onstop h now fault st"
| "finish h (Error_event err) st = onerror h err st"
| "finish h (Error_then_stop err calls now fault) st =
     onstop h now fault (foldl (\<lambda>s c. during c s) (onerror h err st) calls)"

fun one_handler :: "ending \<Rightarrow> bool" where
  "one_handler (Stop_event now fault) = True"
| "one_handler (Error_event err) = True"
| "one_handler (Error_then_stop err calls now fault) = False"

definition session :: "env \<Rightarrow> call list \<Rightarrow> ending \<Rightarrow> page \<Rightarrow> page" where
  "session e calls fin st =
     (case startRecording e st of
        (Inl failure, st') \<Rightarrow> st'
      | (Inr h, st') \<Rightarrow> finish h fin (foldl (\<lambda>s c. during c s) st' calls))"

text \<open>
  The tracks a call of \<^verbatim>\<open>startRecording\<close> acquires: none before the canvas is found,
  then those of the canvas stream and of the audio stream, if it was granted.
\<close>

definition acquired :: "env \<Rightarrow> track list" where
  "acquired e =
     (case canvas e of
        None \<Rightarrow> []
      | Some videoTracks \<Rightarrow>
          videoTracks @ (case getUserMedia e of Inr ts \<Rightarrow> ts | Inl err \<Rightarrow> []))"

text \<open>The tracks an effect works on.\<close>

fun touches :: "effect \<Rightarrow> track list" where
  "touches (Track_stop t) = [t]"
| "touches (Recorder_new r) = stream r"
| "touches (Recorder_start r ms) = stream r"
| "touches (Recorder_stop r) = stream r"
| "touches e = []"

fun used_after_stop :: "track \<Rightarrow> effect list \<Rightarrow> bool" where
  "used_after_stop t [] = False"
| "used_after_stop t (e # es) =
     (if e = Track_stop t then list_ex (\<lambda>e'. t \<in> set (touches e')) es
      else used_after_stop t es)"

definition released :: "track \<Rightarrow> effect list \<Rightarrow> bool" where
  "released t es = (count_list es (Track_stop t) = 1 \<and> \<not> used_after_stop t es)"

text \<open>The downloads a trace triggers: the anchors clicked, in order.\<close>

fun downloads :: "effect list \<Rightarrow> anchor list" where
  "downloads [] = []"
| "downloads (Anchor_click a # es) = a # downloads es"
| "downloads (e # es) = downloads es"

fun stops :: "effect list \<Rightarrow> track list" where
  "stops [] = []"
| "stops (Track_stop t # es) = t # stops es"
| "stops (e # es) = stops es"

fun blobs_built :: "effect list \<Rightarrow> blob list" where
  "blobs_built [] = []"
| "blobs_built (Blob_new b # es) = b # blobs_built es"
| "blobs_built (e # es) = blobs_built es"

fun stop_signals :: "effect list \<Rightarrow> recorder list" where
  "stop_signals [] = []"
| "stop_signals (Recorder_stop r # es) = r # stop_signals es"
| "stop_signals (e # es) = stop_signals es"


section \<open>Notions of the specification\<close>

text \<open>A recorder is active when there is one and it is recording or paused.\<close>

definition recording_or_paused :: "page \<Rightarrow> bool" where
  "recording_or_paused st =
     (case mediaRecorder st of
        None \<Rightarrow> False
      | Some r \<Rightarrow> rstate r = Recording \<or> rstate r = Paused)"

text \<open>The chunks a session's events carry, in the order of the events.\<close>

fun chunks_of :: "call list \<Rightarrow> blob list" where
  "chunks_of [] = []"
| "chunks_of (Data (Some b) # cs) = b # chunks_of cs"
| "chunks_of (c # cs) = chunks_of cs"

definition nonempty_chunks :: "call list \<Rightarrow> blob list" where
  "nonempty_chunks cs = filter (\<lambda>b. 0 < size_of b) (chunks_of cs)"

text \<open>
  The file name as the specification words it: \<^verbatim>\<open>YYYY-MM-DD_HH-MM-SS\<close> of the time
  at which the stop completed, and \<^verbatim>\<open>mp4\<close> for a container of the MP4 family,
  \<^verbatim>\<open>webm\<close> otherwise.
\<close>

definition spec_timestamp :: "date \<Rightarrow> string" where
  "spec_timestamp d =
     pad 4 (nat (utc_year d)) @ ''-'' @ pad 2 (utc_month d) @ ''-'' @ pad 2 (utc_day d)
       @ ''_'' @ pad 2 (utc_hours d) @ ''-'' @ pad 2 (utc_minutes d) @ ''-''
       @ pad 2 (utc_seconds d)"

definition mp4_family :: "string \<Rightarrow> bool" where
  "mp4_family m = startsWith m ''video/mp4''"

definition spec_file_name :: "string \<Rightarrow> date \<Rightarrow> string" where
  "spec_file_name m d =
     ''shadertoy-recording_'' @ spec_timestamp d @ ''.'' @ (if mp4_family m then ''mp4'' else ''webm'')"


section \<open>A concrete session\<close>

text \<open>
  One canvas track, one microphone track, a browser that supports plain WebM only, and
  a stop at 2024-01-15 09:30:45.007 UTC.
\<close>

definition demo_video :: track where
  "demo_video = \<lparr>track_id = 1, kind = Video\<rparr>"

definition demo_audio :: track where
  "demo_audio = \<lparr>track_id = 2, kind = Audio\<rparr>"

definition demo_env :: env where
  "demo_env = \<lparr>canvas = Some [demo_video], getUserMedia = Inr [demo_audio],
                isTypeSupported = (\<lambda>m. m = ''video/webm''), ctor_throws = None\<rparr>"

definition demo_page :: page where
  "demo_page = \<lparr>mediaRecorder = None, recordedBlobs = [], trace = []\<rparr>"

definition demo_chunk :: blob where
  "demo_chunk = \<lparr>blob_bytes = [1, 2, 3], blob_type = ''video/webm''\<rparr>"

definition demo_date :: date where
  "demo_date = \<lparr>utc_year = 2024, utc_month = 1, utc_day = 15, utc_hours = 9,
                 utc_minutes = 30, utc_seconds = 45, utc_milliseconds = 7\<rparr>"


text \<open>
  What the conditional of \<^verbatim>\<open>onstop\<close> does when the page holds the chunks \<open>bs\<close>: the
  warning of the empty branch, or the calls of the \<^verbatim>\<open>try\<close> block.
\<close>

definition ending_effects :: "handlers \<Rightarrow> date \<Rightarrow> fault \<Rightarrow> blob list \<Rightarrow> effect list" where
  "ending_effects h now fault bs =
     (if bs = [] then [Console_warn [Str ''No data was recorded.'']]
      else save_effects h now fault bs)"

definition demo_handlers :: handlers where
  "demo_handlers = \<lparr>combinedStream = [demo_video, demo_audio], selectedMimeType = ''video/webm''\<rparr>"

definition demo_started :: page where
  "demo_started = snd (startRecording demo_env demo_page)"

definition demo_calls :: "call list" where
  "demo_calls =
     [Data (Some demo_chunk), Data None,
      Data (Some \<lparr>blob_bytes = [], blob_type = ''video/webm''\<rparr>), Stop_request]"


text \<open>
  What the browser promises about the streams: the tracks of a canvas stream are video
  tracks, and a stream granted for \<^verbatim>\<open>{ audio: true }\<close> holds at least one track, all of
  them audio tracks.
\<close>

definition tracks_as_requested :: "env \<Rightarrow> bool" where
  "tracks_as_requested e =
     ((case canvas e of None \<Rightarrow> True | Some vs \<Rightarrow> list_all (\<lambda>t. kind t = Video) vs) \<and>
      (case getUserMedia e of
         Inl err \<Rightarrow> True
       | Inr ts \<Rightarrow> ts \<noteq> [] \<and> list_all (\<lambda>t. kind t = Audio) ts))"

definition has_audio_track :: "track list \<Rightarrow> bool" where
  "has_audio_track ts = list_ex (\<lambda>t. kind t = Audio) ts"

definition demo_env_denied :: env where
  "demo_env_denied = demo_env\<lparr>getUserMedia := Inl (Error_obj ''Permission denied'')\<rparr>"

definition demo_env_unsupported :: env where
  "demo_env_unsupported = demo_env\<lparr>isTypeSupported := (\<lambda>m. False)\<rparr>"


definition demo_legacy_handlers :: handlers where
  "demo_legacy_handlers = \<lparr>combinedStream = [demo_video], selectedMimeType = ''video/webm''\<rparr>"


section \<open>Auxiliary facts\<close>

subsection \<open>Blobs\<close>

lemma blob_bytes_new_Blob [simp]: "blob_bytes (new_Blob bs ty) = concat (map blob_bytes bs)"
  by (simp add: new_Blob_def)

lemma normalized_type_webm: "normalized_type ''video/webm'' = ''video/webm''"
  by (simp add: normalized_type_def printable_def ascii_lowercase_def)

subsection \<open>Traces\<close>

lemma trace_emit [simp]: "trace (emit es st) = trace st @ es"
  by (simp add: emit_def)

lemma mediaRecorder_emit [simp]: "mediaRecorder (emit es st) = mediaRecorder st"
  by (simp add: emit_def)

lemma recordedBlobs_emit [simp]: "recordedBlobs (emit es st) = recordedBlobs st"
  by (simp add: emit_def)

lemma trace_stop_all [simp]: "trace (stop_all ts st) = trace st @ map Track_stop ts"
  by (simp add: stop_all_def)

lemma mediaRecorder_stop_all [simp]: "mediaRecorder (stop_all ts st) = mediaRecorder st"
  by (simp add: stop_all_def)

lemma recordedBlobs_stop_all [simp]: "recordedBlobs (stop_all ts st) = recordedBlobs st"
  by (simp add: stop_all_def)


subsection \<open>Projections of a trace\<close>

lemma stops_append [simp]: "stops (xs @ ys) = stops xs @ stops ys"
  by (induction xs rule: stops.induct) simp_all

lemma downloads_append [simp]: "downloads (xs @ ys) = downloads xs @ downloads ys"
  by (induction xs rule: downloads.induct) simp_all

lemma blobs_built_append [simp]: "blobs_built (xs @ ys) = blobs_built xs @ blobs_built ys"
  by (induction xs rule: blobs_built.induct) simp_all

lemma stop_signals_append [simp]: "stop_signals (xs @ ys) = stop_signals xs @ stop_signals ys"
  by (induction xs rule: stop_signals.induct) simp_all

lemma stops_map_Track_stop [simp]: "stops (map Track_stop ts) = ts"
  by (induction ts) simp_all

lemma downloads_map_Track_stop [simp]: "downloads (map Track_stop ts) = []"
  by (induction ts) simp_all

lemma blobs_built_map_Track_stop [simp]: "blobs_built (map Track_stop ts) = []"
  by (induction ts) simp_all

lemma stop_signals_map_Track_stop [simp]: "stop_signals (map Track_stop ts) = []"
  by (induction ts) simp_all

lemma count_list_stops: "count_list es (Track_stop t) = count_list (stops es) t"
  by (induction es rule: stops.induct) simp_all


lemma count_list_distinct: "distinct ts \<Longrightarrow> t \<in> set ts \<Longrightarrow> count_list ts t = 1"
  by (induction ts) auto

lemma used_after_stop_skip:
  "t \<notin> set (stops pre) \<Longrightarrow> used_after_stop t (pre @ es) = used_after_stop t es"
  by (induction pre rule: stops.induct) auto

lemma used_after_stop_untouched:
  "\<forall>e \<in> set es. t \<notin> set (touches e) \<Longrightarrow> \<not> used_after_stop t es"
  by (induction es) auto

lemma used_after_stop_tracks:
  "distinct ts \<Longrightarrow> \<forall>e \<in> set post. t \<notin> set (touches e) \<Longrightarrow>
     \<not> used_after_stop t (map Track_stop ts @ post)"
  by (induction ts) (auto simp: list_ex_iff used_after_stop_untouched)

lemma released_shape:
  assumes "stops pre = []" and "distinct ts" and "t \<in> set ts"
    and "stops post = []" and "\<forall>e \<in> set post. t \<notin> set (touches e)"
  shows "released t (pre @ map Track_stop ts @ post)"
  using assms
  by (simp add: released_def count_list_stops count_list_distinct used_after_stop_skip
      used_after_stop_tracks)

subsection \<open>Streams\<close>

lemma set_new_MediaStream [simp]: "set (new_MediaStream ts) = set ts"
  by (induction ts) auto

lemma distinct_new_MediaStream [simp]: "distinct (new_MediaStream ts)"
  by (induction ts) auto

lemma new_MediaStream_Nil_iff [simp]: "new_MediaStream ts = [] \<longleftrightarrow> ts = []"
  by (cases ts) simp_all

subsection \<open>The effects of each operation\<close>

lemma startRecording_Inr:
  assumes "startRecording e st = (Inr h, st1)"
  shows "canvas e \<noteq> None" and "acquired e \<noteq> []"
    and "array_find (isTypeSupported e) mimeTypes = Some (selectedMimeType h)"
    and "ctor_throws e = None"
    and "combinedStream h = new_MediaStream (acquired e)"
    and "recordedBlobs st1 = []"
    and "mediaRecorder st1 =
           Some \<lparr>rstate = Recording, stream = combinedStream h, mimeType = selectedMimeType h,
                 videoBitsPerSecond = 5000000,
                 audioBitsPerSecond =
                   (case getUserMedia e of Inr ts \<Rightarrow> Some 128000 | Inl err \<Rightarrow> None),
                 timeslice = Some 100\<rparr>"
  using assms
  by (auto simp: startRecording_def acquired_def Let_def
      split: option.splits sum.splits if_splits)

lemma startRecording_Inr_trace:
  assumes "startRecording e st = (Inr h, st1)"
  shows "\<exists>es. trace st1 = trace st @ es \<and> stops es = [] \<and> downloads es = []
           \<and> blobs_built es = [] \<and> stop_signals es = []"
  using assms
  by (auto simp: startRecording_def acquired_def Let_def
      split: option.splits sum.splits if_splits)

lemma startRecording_Inl_trace:
  assumes "startRecording e st = (Inl f, st1)"
  shows "\<exists>pre. trace st1 = trace st @ pre @ map Track_stop (new_MediaStream (acquired e))
           \<and> stops pre = [] \<and> downloads pre = [] \<and> blobs_built pre = []
           \<and> stop_signals pre = []"
    and "mediaRecorder st1 = mediaRecorder st"
  using assms
  by (auto simp: startRecording_def acquired_def Let_def
      split: option.splits sum.splits if_splits)

lemma stopRecording_trace:
  "\<exists>es. trace (stopRecording st) = trace st @ es \<and> stops es = [] \<and> downloads es = []
         \<and> blobs_built es = []"
  by (auto simp: stopRecording_def split: option.splits)

lemma recordedBlobs_stopRecording [simp]:
  "recordedBlobs (stopRecording st) = recordedBlobs st"
  by (auto simp: stopRecording_def split: option.splits)

lemma trace_ondataavailable [simp]: "trace (ondataavailable d st) = trace st"
  by (auto simp: ondataavailable_def split: option.splits)

lemma during_trace:
  "\<exists>es. trace (during c st) = trace st @ es \<and> stops es = [] \<and> downloads es = []
         \<and> blobs_built es = []"
  using stopRecording_trace [of st] by (cases c) auto

lemma calls_trace:
  "\<exists>es. trace (foldl (\<lambda>s c. during c s) st calls) = trace st @ es \<and> stops es = []
         \<and> downloads es = [] \<and> blobs_built es = []"
proof (induction calls arbitrary: st)
  case Nil
  then show ?case by simp
next
  case (Cons c calls)
  obtain xs where xs: "trace (during c st) = trace st @ xs" "stops xs = []"
      "downloads xs = []" "blobs_built xs = []"
    using during_trace [of c st] by blast
  obtain ys where ys: "trace (foldl (\<lambda>s c. during c s) (during c st) calls)
        = trace (during c st) @ ys" "stops ys = []" "downloads ys = []" "blobs_built ys = []"
    using Cons.IH [of "during c st"] by blast
  show ?case
    using xs ys by (intro exI [of _ "xs @ ys"]) simp
qed

lemma recordedBlobs_during:
  "recordedBlobs (during c st) = recordedBlobs st @ nonempty_chunks [c]"
  by (cases c) (auto simp: ondataavailable_def nonempty_chunks_def split: option.splits)

lemma nonempty_chunks_Cons: "nonempty_chunks (c # cs) = nonempty_chunks [c] @ nonempty_chunks cs"
  by (induction "c # cs" rule: chunks_of.induct) (auto simp: nonempty_chunks_def)

lemma recordedBlobs_calls:
  "recordedBlobs (foldl (\<lambda>s c. during c s) st calls) = recordedBlobs st @ nonempty_chunks calls"
proof (induction calls arbitrary: st)
  case Nil
  then show ?case by (simp add: nonempty_chunks_def)
next
  case (Cons c calls)
  then show ?case
    using nonempty_chunks_Cons [of c calls] by (simp add: recordedBlobs_during)
qed

lemma stops_take: "stops es = [] \<Longrightarrow> stops (take k es) = []"
  by (induction es arbitrary: k rule: stops.induct) (auto simp: take_Cons' )


lemma stops_save_calls [simp]: "stops (save_calls h now blobs) = []"
  by (simp add: save_calls_def Let_def)

lemma stops_save_effects [simp]: "stops (save_effects h now fault blobs) = []"
  by (auto simp: save_effects_def stops_take split: option.splits)


lemma onstop_trace:
  "trace (onstop h now fault st) =
     trace st @
     (Console_log [Str ''MediaRecorder stopped.''] #
      (if recordedBlobs st = [] then [Console_warn [Str ''No data was recorded.'']]
       else save_effects h now fault (recordedBlobs st))) @
     map Track_stop (combinedStream h) @ [Console_log [Str ''All tracks stopped (onstop).'']]"
  by (simp add: onstop_def Let_def save_video_def)

lemma onerror_trace:
  "trace (onerror h err st) =
     trace st @
     [Console_error [Str ''MediaRecorder error:'', (case err of Some ex \<Rightarrow> Exn ex | None \<Rightarrow> Evt)],
      Alert ''MediaRecorder error. Recording cannot continue. Check console for details.''] @
     map Track_stop (combinedStream h) @
     [Console_log [Str ''All tracks stopped (MediaRecorder error).'']]"
  by (simp add: onerror_def Let_def)

lemma finish_trace:
  assumes "one_handler fin"
  shows "\<exists>pre post. trace (finish h fin st) = trace st @ pre @ map Track_stop (combinedStream h) @ post
      \<and> stops pre = [] \<and> stops post = [] \<and> (\<forall>e \<in> set post. touches e = [])"
proof (cases fin)
  case (Stop_event now fault)
  show ?thesis
    unfolding Stop_event finish.simps onstop_trace
    by (intro exI conjI) (rule refl | simp)+
next
  case (Error_event err)
  show ?thesis
    unfolding Error_event finish.simps onerror_trace
    by (intro exI conjI) (rule refl | simp)+
next
  case (Error_then_stop err calls now fault)
  with assms show ?thesis by simp
qed

subsection \<open>The timestamp\<close>

lemma pad_2: "pad 2 n = [digit (n div 10), digit n]"
proof -
  have "pad (Suc (Suc 0)) n = [digit (n div 10), digit n]" by simp
  then show ?thesis by (simp add: numeral_2_eq_2)
qed

lemma pad_3: "pad 3 n = [digit (n div 10 div 10), digit (n div 10), digit n]"
proof -
  have "pad (Suc (Suc (Suc 0))) n = [digit (n div 10 div 10), digit (n div 10), digit n]"
    by simp
  then show ?thesis by (simp add: numeral_3_eq_3)
qed

lemma pad_4:
  "pad 4 n = [digit (n div 10 div 10 div 10), digit (n div 10 div 10), digit (n div 10), digit n]"
proof -
  have "pad (Suc (Suc (Suc (Suc 0)))) n
          = [digit (n div 10 div 10 div 10), digit (n div 10 div 10), digit (n div 10), digit n]"
    by simp
  moreover have "(4::nat) = Suc (Suc (Suc (Suc 0)))" by simp
  ultimately show ?thesis by (simp only:)
qed

lemma digit_in: "digit d \<in> set ''0123456789''"
  unfolding digit_def by (rule nth_mem) simp

lemma digit_neq [simp]:
  "digit d \<noteq> CHR '':''" "digit d \<noteq> CHR ''.''" "digit d \<noteq> CHR ''T''" "digit d \<noteq> CHR ''-''"
  using digit_in [of d] by auto

lemma timestamp_four_digit_year:
  assumes "0 \<le> utc_year now" and "utc_year now \<le> 9999"
  shows "timestamp now = spec_timestamp now"
  using assms
  by (simp add: timestamp_def spec_timestamp_def toISOString_def year_string_def
      replace_colons_periods_def pad_2 pad_3 pad_4)

lemma fileExtension_mimeTypes:
  "m \<in> set mimeTypes \<Longrightarrow> fileExtension m = ''.'' @ (if mp4_family m then ''mp4'' else ''webm'')"
  by (auto simp: mimeTypes_def fileExtension_def mp4_family_def startsWith_def)

lemma array_find_Some: "array_find p xs = Some x \<Longrightarrow> x \<in> set xs \<and> p x"
  by (induction xs) (auto split: if_splits)

lemma download_name_spec:
  assumes "m \<in> set mimeTypes" and "0 \<le> utc_year now" and "utc_year now \<le> 9999"
  shows "download_name m now = spec_file_name m now"
  using assms
  by (simp add: download_name_def spec_file_name_def timestamp_four_digit_year
      fileExtension_mimeTypes)

subsection \<open>Sessions that started\<close>

lemma downloads_save_calls [simp]:
  "downloads (save_calls h now bs) =
     [\<lparr>href = new_Blob bs (selectedMimeType h), download = download_name (selectedMimeType h) now\<rparr>]"
  by (simp add: save_calls_def Let_def)

lemma blobs_built_save_calls [simp]:
  "blobs_built (save_calls h now bs) = [new_Blob bs (selectedMimeType h)]"
  by (simp add: save_calls_def Let_def)

lemma save_effects_None [simp]: "save_effects h now None bs = save_calls h now bs"
  by (simp add: save_effects_def)

lemma downloads_save_effects:
  "set (downloads (save_effects h now fault bs)) \<subseteq>
     {\<lparr>href = new_Blob bs (selectedMimeType h), download = download_name (selectedMimeType h) now\<rparr>}"
proof (cases fault)
  case None
  then show ?thesis by simp
next
  case (Some cx)
  obtain c ex where cx: "cx = (c, ex)" by (cases cx)
  show ?thesis
    unfolding Some cx by (cases c) (simp_all add: save_effects_def save_calls_def Let_def)
qed

lemma session_stop_event:
  assumes "startRecording e st = (Inr h, st1)"
  shows "\<exists>pre. since st (session e calls (Stop_event now fault) st) =
            pre @ ending_effects h now fault (nonempty_chunks calls) @
            map Track_stop (new_MediaStream (acquired e)) @
            [Console_log [Str ''All tracks stopped (onstop).'']]
          \<and> stops pre = [] \<and> downloads pre = [] \<and> blobs_built pre = []"
proof -
  let ?st2 = "foldl (\<lambda>s c. during c s) st1 calls"
  obtain xs where xs: "trace st1 = trace st @ xs" "stops xs = []" "downloads xs = []"
      "blobs_built xs = []"
    using startRecording_Inr_trace [OF assms] by blast
  obtain ys where ys: "trace ?st2 = trace st1 @ ys" "stops ys = []" "downloads ys = []"
      "blobs_built ys = []"
    using calls_trace [of st1 calls] by blast
  have blobs: "recordedBlobs ?st2 = nonempty_chunks calls"
    using startRecording_Inr(6) [OF assms] by (simp add: recordedBlobs_calls)
  have "since st (session e calls (Stop_event now fault) st) =
          (xs @ ys @ [Console_log [Str ''MediaRecorder stopped.'']]) @
          ending_effects h now fault (nonempty_chunks calls) @
          map Track_stop (new_MediaStream (acquired e)) @
          [Console_log [Str ''All tracks stopped (onstop).'']]"
    using xs(1) ys(1) blobs startRecording_Inr(5) [OF assms]
    by (simp add: session_def assms since_def onstop_trace ending_effects_def)
  moreover have "stops (xs @ ys @ [Console_log [Str ''MediaRecorder stopped.'']]) = []"
      "downloads (xs @ ys @ [Console_log [Str ''MediaRecorder stopped.'']]) = []"
      "blobs_built (xs @ ys @ [Console_log [Str ''MediaRecorder stopped.'']]) = []"
    using xs ys by simp_all
  ultimately show ?thesis by blast
qed

lemma mediaRecorder_onstop [simp]: "mediaRecorder (onstop h now fault st) = None"
  by (simp add: onstop_def Let_def)

subsection \<open>The concrete session\<close>

lemma demo_start: "startRecording demo_env demo_page = (Inr demo_handlers, demo_started)"
  by (simp add: demo_started_def demo_handlers_def startRecording_def demo_env_def
      demo_video_def demo_audio_def mimeTypes_def Let_def)

lemma demo_chunks: "nonempty_chunks demo_calls = [demo_chunk]"
  by (simp add: demo_calls_def nonempty_chunks_def size_of_def demo_chunk_def)

lemma demo_year: "0 \<le> utc_year demo_date" "utc_year demo_date \<le> 9999"
  by (simp_all add: demo_date_def)

subsection \<open>More on sessions\<close>

lemma ending_effects_Nil [simp]:
  "ending_effects h now fault [] = [Console_warn [Str ''No data was recorded.'']]"
  by (simp add: ending_effects_def)

lemma blobs_built_save_effects:
  "set (blobs_built (save_effects h now fault bs)) \<subseteq> {new_Blob bs (selectedMimeType h)}"
proof (cases fault)
  case None
  then show ?thesis by simp
next
  case (Some cx)
  obtain c ex where cx: "cx = (c, ex)" by (cases cx)
  show ?thesis
    unfolding Some cx by (cases c) (simp_all add: save_effects_def save_calls_def Let_def)
qed

lemma mediaRecorder_session_stop:
  "startRecording e st = (Inr h, st1) \<Longrightarrow>
     mediaRecorder (session e calls (Stop_event now fault) st) = None"
  by (simp add: session_def)

lemma recordedBlobs_startRecording:
  "canvas e \<noteq> None \<Longrightarrow> recordedBlobs (snd (startRecording e st)) = []"
  by (auto simp: startRecording_def Let_def split: option.splits)

lemma startRecording_denied_started:
  assumes "canvas e = Some videoTracks" and "videoTracks \<noteq> []" and "getUserMedia e = Inl err"
    and "array_find (isTypeSupported e) mimeTypes = Some m" and "ctor_throws e = None"
  shows "\<exists>st1. startRecording e st =
                 (Inr \<lparr>combinedStream = new_MediaStream videoTracks, selectedMimeType = m\<rparr>, st1)
           \<and> mediaRecorder st1 =
               Some \<lparr>rstate = Recording, stream = new_MediaStream videoTracks, mimeType = m,
                     videoBitsPerSecond = 5000000, audioBitsPerSecond = None,
                     timeslice = Some 100\<rparr>
           \<and> stops (since st st1) = []
           \<and> (nonempty_chunks calls \<noteq> [] \<longrightarrow>
                downloads (since st (session e calls (Stop_event now None) st)) =
                  [\<lparr>href = new_Blob (nonempty_chunks calls) m, download = download_name m now\<rparr>])"
proof -
  let ?h = "\<lparr>combinedStream = new_MediaStream videoTracks, selectedMimeType = m\<rparr>"
  have "fst (startRecording e st) = Inr ?h"
    using assms by (simp add: startRecording_def Let_def)
  then obtain st1 where start: "startRecording e st = (Inr ?h, st1)"
    by (cases "startRecording e st") simp
  have rec: "mediaRecorder st1 =
      Some \<lparr>rstate = Recording, stream = new_MediaStream videoTracks, mimeType = m,
            videoBitsPerSecond = 5000000, audioBitsPerSecond = None, timeslice = Some 100\<rparr>"
    using startRecording_Inr(7) [OF start] assms(3) by simp
  have quiet: "stops (since st st1) = []"
    using startRecording_Inr_trace [OF start] by (auto simp: since_def)
  obtain pre where pre: "since st (session e calls (Stop_event now None) st) =
        pre @ ending_effects ?h now None (nonempty_chunks calls) @
        map Track_stop (new_MediaStream (acquired e)) @
        [Console_log [Str ''All tracks stopped (onstop).'']]" "downloads pre = []"
    using session_stop_event [OF start, of calls now None] by blast
  have dl: "nonempty_chunks calls \<noteq> [] \<longrightarrow>
      downloads (since st (session e calls (Stop_event now None) st)) =
        [\<lparr>href = new_Blob (nonempty_chunks calls) m, download = download_name m now\<rparr>]"
    unfolding pre(1) using pre(2) by (simp add: ending_effects_def)
  show ?thesis
    using start rec quiet dl by blast
qed

lemma startRecording_denied:
  assumes "canvas e = Some videoTracks" and "videoTracks \<noteq> []" and "getUserMedia e = Inl err"
  shows "fst (startRecording e st) =
           (case array_find (isTypeSupported e) mimeTypes of
              None \<Rightarrow> Inl NoMimeType
            | Some m \<Rightarrow>
                (case ctor_throws e of
                   Some ex \<Rightarrow> Inl CtorFailed
                 | None \<Rightarrow> Inr \<lparr>combinedStream = new_MediaStream videoTracks,
                                selectedMimeType = m\<rparr>))"
    and "Alert (''Could not get audio stream. Recording video only. Error: '' @ err_text err)
           \<in> set (since st (snd (startRecording e st)))"
  using assms
  by (auto simp: startRecording_def Let_def since_def split: option.splits)

lemma demo_denied_find:
  "array_find (isTypeSupported demo_env_denied) mimeTypes = Some ''video/webm''"
  by (simp add: demo_env_denied_def demo_env_def mimeTypes_def)

subsection \<open>Selection and configuration\<close>

lemma pad_6:
  "pad 6 n = [digit (n div 10 div 10 div 10 div 10 div 10), digit (n div 10 div 10 div 10 div 10),
              digit (n div 10 div 10 div 10), digit (n div 10 div 10), digit (n div 10), digit n]"
proof -
  have "pad (Suc (Suc (Suc (Suc (Suc (Suc 0)))))) n =
      [digit (n div 10 div 10 div 10 div 10 div 10), digit (n div 10 div 10 div 10 div 10),
       digit (n div 10 div 10 div 10), digit (n div 10 div 10), digit (n div 10), digit n]"
    by simp
  moreover have "(6::nat) = Suc (Suc (Suc (Suc (Suc (Suc 0)))))" by simp
  ultimately show ?thesis by (simp only:)
qed

lemma array_find_first:
  "array_find p xs = Some x \<Longrightarrow>
     \<exists>pre post. xs = pre @ x # post \<and> p x \<and> (\<forall>y \<in> set pre. \<not> p y)"
proof (induction xs)
  case Nil
  then show ?case by simp
next
  case (Cons a xs)
  show ?case
  proof (cases "p a")
    case True
    with Cons.prems have "a # xs = [] @ x # xs \<and> p x \<and> (\<forall>y \<in> set []. \<not> p y)" by simp
    then show ?thesis by blast
  next
    case False
    with Cons obtain pre post where "xs = pre @ x # post" "p x" "\<forall>y \<in> set pre. \<not> p y"
      by auto
    with False have "a # xs = (a # pre) @ x # post \<and> p x \<and> (\<forall>y \<in> set (a # pre). \<not> p y)"
      by simp
    then show ?thesis by blast
  qed
qed

lemma array_find_None: "(\<forall>x \<in> set xs. \<not> p x) \<Longrightarrow> array_find p xs = None"
  by (induction xs) simp_all

lemma startRecording_unsupported:
  assumes "canvas e \<noteq> None" and "acquired e \<noteq> []"
    and "array_find (isTypeSupported e) mimeTypes = None"
  shows "fst (startRecording e st) = Inl NoMimeType"
    and "\<exists>pre. since st (snd (startRecording e st)) =
           pre @ [Alert ''No suitable MIME type found for MediaRecorder.'',
                  Console_error [Str ''No suitable MIME type found from the preferred list.'']] @
           map Track_stop (new_MediaStream (acquired e)) @ []
         \<and> stops pre = [] \<and> downloads pre = [] \<and> blobs_built pre = []"
    and "mediaRecorder (snd (startRecording e st)) = mediaRecorder st"
  using assms
  by (auto simp: startRecording_def acquired_def Let_def since_def split: option.splits sum.splits)

lemma has_audio_track_new_MediaStream [simp]:
  "has_audio_track (new_MediaStream ts) = has_audio_track ts"
  by (simp add: has_audio_track_def list_ex_iff)

lemma has_audio_track_acquired:
  assumes "tracks_as_requested e" and "canvas e \<noteq> None"
  shows "has_audio_track (acquired e) \<longleftrightarrow> (\<exists>ts. getUserMedia e = Inr ts)"
  using assms
  by (auto simp: tracks_as_requested_def acquired_def has_audio_track_def list_ex_iff
      list_all_iff neq_Nil_conv split: option.splits sum.splits)

lemma startRecording_Inr_recorder_calls:
  assumes "startRecording e st = (Inr h, st1)"
  shows "\<exists>r. mediaRecorder st1 = Some (r\<lparr>rstate := Recording, timeslice := Some 100\<rparr>)
           \<and> rstate r = Inactive \<and> timeslice r = None
           \<and> Recorder_new r \<in> set (since st st1)
           \<and> Recorder_start r 100 \<in> set (since st st1)"
  using assms
  by (auto simp: startRecording_def Let_def since_def split: option.splits sum.splits if_splits)

subsection \<open>The older script\<close>

lemma downloads_legacy_save_calls [simp]:
  "downloads (legacy_save_calls h now bs) =
     [\<lparr>href = new_Blob bs (selectedMimeType h), download = legacy_download_name now\<rparr>]"
  by (simp add: legacy_save_calls_def Let_def)

lemma downloads_legacy_faulty:
  "set (downloads (take (calls_before c) (legacy_save_calls h now bs))) \<subseteq>
     {\<lparr>href = new_Blob bs (selectedMimeType h), download = legacy_download_name now\<rparr>}"
  by (cases c) (simp_all add: legacy_save_calls_def Let_def)


subsection \<open>Sessions that one handler ends\<close>

text \<open>
  When one handler ends the session, or \<^verbatim>\<open>startRecording\<close> returns early, each
  acquired track is stopped exactly once and nothing works on it afterwards.
\<close>

lemma released_when_one_handler_ends:
  assumes "one_handler fin"
  shows "\<forall>t \<in> set (acquired e). released t (since st (session e calls fin st))"
proof
  fix t
  assume t: "t \<in> set (acquired e)"
  obtain res st1 where start: "startRecording e st = (res, st1)"
    by (cases "startRecording e st")
  show "released t (since st (session e calls fin st))"
  proof (cases res)
    case (Inl failure)
    obtain pre where pre: "trace st1 = trace st @ pre @ map Track_stop (new_MediaStream (acquired e))"
        "stops pre = []"
      using startRecording_Inl_trace(1) [OF start [unfolded Inl]] by blast
    have "since st (session e calls fin st)
            = pre @ map Track_stop (new_MediaStream (acquired e)) @ []"
      using pre(1) by (simp add: session_def start Inl since_def)
    moreover have "released t (pre @ map Track_stop (new_MediaStream (acquired e)) @ [])"
      using pre(2) t by (intro released_shape) simp_all
    ultimately show ?thesis by simp
  next
    case (Inr h)
    note started = start [unfolded Inr]
    let ?st2 = "foldl (\<lambda>s c. during c s) st1 calls"
    obtain xs where xs: "trace st1 = trace st @ xs" "stops xs = []"
      using startRecording_Inr_trace [OF started] by blast
    obtain ys where ys: "trace ?st2 = trace st1 @ ys" "stops ys = []"
      using calls_trace [of st1 calls] by blast
    obtain pre post where fin: "trace (finish h fin ?st2)
          = trace ?st2 @ pre @ map Track_stop (combinedStream h) @ post"
        "stops pre = []" "stops post = []" "\<forall>e \<in> set post. touches e = []"
      using finish_trace [OF assms, of h ?st2] by blast
    have "since st (session e calls fin st)
            = (xs @ ys @ pre) @ map Track_stop (combinedStream h) @ post"
      using xs(1) ys(1) fin(1) by (simp add: session_def started since_def)
    moreover have "released t ((xs @ ys @ pre) @ map Track_stop (combinedStream h) @ post)"
      using xs(2) ys(2) fin(2-4) t startRecording_Inr(5) [OF started]
      by (intro released_shape) simp_all
    ultimately show ?thesis by simp
  qed
qed


subsection \<open>An error followed by a stop, and a start that throws\<close>

lemma trace_onerror_calls_onstop:
  assumes "trace (foldl (\<lambda>s c. during c s) (onerror h err st) calls) = trace (onerror h err st) @ zs"
  shows "trace (onstop h now fault (foldl (\<lambda>s c. during c s) (onerror h err st) calls)) =
     trace (onerror h err st) @ zs @
     Console_log [Str ''MediaRecorder stopped.''] #
     ending_effects h now fault (recordedBlobs st @ nonempty_chunks calls) @
     map Track_stop (combinedStream h) @ [Console_log [Str ''All tracks stopped (onstop).'']]"
proof -
  have "recordedBlobs (onerror h err st) = recordedBlobs st"
    by (simp add: onerror_def Let_def)
  then show ?thesis
    using assms by (simp add: onstop_trace recordedBlobs_calls ending_effects_def)
qed

lemma nonempty_chunks_Nil [simp]: "nonempty_chunks [] = []"
  by (simp add: nonempty_chunks_def)

lemma session_error_then_stop:
  assumes "startRecording e st = (Inr h, st1)"
  shows "\<exists>pre mid.
           since st (session e calls (Error_then_stop err calls' now fault) st) =
             pre @ map Track_stop (new_MediaStream (acquired e)) @ mid @
             ending_effects h now fault (nonempty_chunks calls @ nonempty_chunks calls') @
             map Track_stop (new_MediaStream (acquired e)) @
             [Console_log [Str ''All tracks stopped (onstop).'']]
         \<and> stops pre = [] \<and> downloads pre = [] \<and> stops mid = [] \<and> downloads mid = []"
proof -
  let ?st2 = "foldl (\<lambda>s c. during c s) st1 calls"
  let ?st3 = "onerror h err ?st2"
  obtain xs where xs: "trace st1 = trace st @ xs" "stops xs = []" "downloads xs = []"
    using startRecording_Inr_trace [OF assms] by blast
  obtain ys where ys: "trace ?st2 = trace st1 @ ys" "stops ys = []" "downloads ys = []"
    using calls_trace [of st1 calls] by blast
  obtain zs where zs: "trace (foldl (\<lambda>s c. during c s) ?st3 calls') = trace ?st3 @ zs"
      "stops zs = []" "downloads zs = []"
    using calls_trace [of ?st3 calls'] by blast
  have blobs: "recordedBlobs ?st2 = nonempty_chunks calls"
    using startRecording_Inr(6) [OF assms] by (simp add: recordedBlobs_calls)
  let ?pre = "xs @ ys @
      [Console_error [Str ''MediaRecorder error:'', (case err of Some ex \<Rightarrow> Exn ex | None \<Rightarrow> Evt)],
       Alert ''MediaRecorder error. Recording cannot continue. Check console for details.'']"
  let ?mid = "Console_log [Str ''All tracks stopped (MediaRecorder error).''] # zs @
      [Console_log [Str ''MediaRecorder stopped.'']]"
  have "since st (session e calls (Error_then_stop err calls' now fault) st) =
      ?pre @ map Track_stop (new_MediaStream (acquired e)) @ ?mid @
      ending_effects h now fault (nonempty_chunks calls @ nonempty_chunks calls') @
      map Track_stop (new_MediaStream (acquired e)) @
      [Console_log [Str ''All tracks stopped (onstop).'']]"
    using xs(1) ys(1) blobs startRecording_Inr(5) [OF assms]
    by (simp add: session_def assms trace_onerror_calls_onstop [OF zs(1)] onerror_trace since_def)
  moreover have "stops ?pre = []" "downloads ?pre = []" "stops ?mid = []" "downloads ?mid = []"
    using xs ys zs by simp_all
  ultimately show ?thesis by blast
qed

lemma stops_ending_effects [simp]: "stops (ending_effects h now fault bs) = []"
  by (simp add: ending_effects_def)

lemma stops_session_error_then_stop:
  assumes "startRecording e st = (Inr h, st1)"
  shows "stops (since st (session e calls (Error_then_stop err calls' now fault) st)) =
           new_MediaStream (acquired e) @ new_MediaStream (acquired e)"
proof -
  obtain pre mid where "since st (session e calls (Error_then_stop err calls' now fault) st) =
        pre @ map Track_stop (new_MediaStream (acquired e)) @ mid @
        ending_effects h now fault (nonempty_chunks calls @ nonempty_chunks calls') @
        map Track_stop (new_MediaStream (acquired e)) @
        [Console_log [Str ''All tracks stopped (onstop).'']]"
      "stops pre = []" "stops mid = []"
    using session_error_then_stop [OF assms, of calls err calls' now fault] by blast
  then show ?thesis by simp
qed

lemma stops_startRecording_start_throws:
  assumes "startRecording e st = (Inr h, st1)"
  shows "stops (since st (startRecording_start_throws e st)) = []"
proof -
  obtain es where es: "trace st1 = trace st @ es" "stops es = []"
    using startRecording_Inr_trace [OF assms] by blast
  have "es \<noteq> []"
    using assms es(1)
    by (auto simp: startRecording_def Let_def split: option.splits sum.splits if_splits)
  then have "butlast (trace st1) = trace st @ butlast es"
    using es(1) by (simp add: butlast_append)
  moreover have "stops (butlast es) = []"
    using es(2) stops_take [of es "length es - 1"] by (simp add: butlast_conv_take)
  ultimately show ?thesis
    by (simp add: startRecording_start_throws_def assms since_def)
qed


section \<open>The name of the downloaded file\<close>

text \<open>
  Claim C1. A session of \<^verbatim>\<open>src/content.ts\<close> that started the recorder, gathered at least
  one non-empty chunk and whose \<^verbatim>\<open>stop\<close> event arrives at a time with a four-digit
  UTC year triggers exactly one download, named \<^verbatim>\<open>shadertoy-recording_\<close>, then the time
  as \<^verbatim>\<open>YYYY-MM-DD_HH-MM-SS\<close>, then \<^verbatim>\<open>.mp4\<close> when the selected type is of the MP4
  family and \<^verbatim>\<open>.webm\<close> otherwise. When a call of the \<^verbatim>\<open>try\<close> block throws, any
  download that was still triggered carries that same name.
\<close>

theorem download_file_name:
  assumes "startRecording e st = (Inr h, st1)"
    and "nonempty_chunks calls \<noteq> []"
    and "0 \<le> utc_year now" and "utc_year now \<le> 9999"
  shows "map download (downloads (since st (session e calls (Stop_event now None) st))) =
           [''shadertoy-recording_'' @ spec_timestamp now @
            (if mp4_family (selectedMimeType h) then ''.mp4'' else ''.webm'')]
         \<and> (\<forall>a \<in> set (downloads (since st (session e calls (Stop_event now fault) st))).
               download a =
                 ''shadertoy-recording_'' @ spec_timestamp now @
                 (if mp4_family (selectedMimeType h) then ''.mp4'' else ''.webm''))"
proof -
  have m: "selectedMimeType h \<in> set mimeTypes"
    using startRecording_Inr(3) [OF assms(1)] by (simp add: array_find_Some)
  have name: "download_name (selectedMimeType h) now =
      ''shadertoy-recording_'' @ spec_timestamp now @
      (if mp4_family (selectedMimeType h) then ''.mp4'' else ''.webm'')"
    using download_name_spec [OF m assms(3,4)] by (simp add: spec_file_name_def)
  obtain pre where pre: "since st (session e calls (Stop_event now None) st) =
        pre @ ending_effects h now None (nonempty_chunks calls) @
        map Track_stop (new_MediaStream (acquired e)) @
        [Console_log [Str ''All tracks stopped (onstop).'']]" "downloads pre = []"
    using session_stop_event [OF assms(1), of calls now None] by blast
  obtain pre' where pre': "since st (session e calls (Stop_event now fault) st) =
        pre' @ ending_effects h now fault (nonempty_chunks calls) @
        map Track_stop (new_MediaStream (acquired e)) @
        [Console_log [Str ''All tracks stopped (onstop).'']]" "downloads pre' = []"
    using session_stop_event [OF assms(1), of calls now fault] by blast
  have one: "map download (downloads (since st (session e calls (Stop_event now None) st))) =
      [download_name (selectedMimeType h) now]"
    unfolding pre(1) using pre(2) assms(2) by (simp add: ending_effects_def)
  have all: "\<forall>a \<in> set (downloads (since st (session e calls (Stop_event now fault) st))).
      download a = download_name (selectedMimeType h) now"
    unfolding pre'(1) using pre'(2) assms(2)
      downloads_save_effects [of h now fault "nonempty_chunks calls"]
    by (auto simp: ending_effects_def)
  show ?thesis using one all by (simp only: name)
qed

theorem download_file_name_witness:
  "startRecording demo_env demo_page = (Inr demo_handlers, demo_started)
   \<and> nonempty_chunks demo_calls \<noteq> []
   \<and> 0 \<le> utc_year demo_date \<and> utc_year demo_date \<le> 9999
   \<and> map download
        (downloads (since demo_page (session demo_env demo_calls (Stop_event demo_date None) demo_page)))
      = [''shadertoy-recording_2024-01-15_09-30-45.webm'']"
proof -
  have chunks: "nonempty_chunks demo_calls \<noteq> []"
    by (simp add: demo_chunks)
  have name: "''shadertoy-recording_'' @ spec_timestamp demo_date @
      (if mp4_family (selectedMimeType demo_handlers) then ''.mp4'' else ''.webm'')
      = ''shadertoy-recording_2024-01-15_09-30-45.webm''"
    by (simp add: spec_timestamp_def demo_date_def pad_2 pad_4 digit_def mp4_family_def
        startsWith_def demo_handlers_def)
  show ?thesis
    using download_file_name [OF demo_start chunks demo_year, of None] demo_start chunks demo_year
    by (simp only: name) simp
qed


section \<open>Release of the tracks\<close>

text \<open>
  Claim C2. In every session, on every branch on which it ends, each acquired track is
  to be stopped exactly once and not be worked on afterwards. The script does so when
  one handler ends the session and when \<^verbatim>\<open>startRecording\<close> returns early
  (\<open>released_when_one_handler_ends\<close>). It does not in two runs, evaluated here on the
  concrete session. When the encoder faults, the \<^verbatim>\<open>error\<close> event is followed by the
  \<^verbatim>\<open>stop\<close> event on the same recorder: \<^verbatim>\<open>onerror\<close> stops both tracks, then
  \<^verbatim>\<open>onstop\<close> stops both again and downloads the chunks gathered. When
  \<^verbatim>\<open>mediaRecorder.start(100)\<close> throws, both tracks have been acquired and neither is
  stopped.
\<close>

theorem tracks_not_stopped_once_on_faults:
  "stops (since demo_page
      (session demo_env demo_calls (Error_then_stop None [] demo_date None) demo_page)) =
     [demo_video, demo_audio, demo_video, demo_audio]
   \<and> count_list (since demo_page
         (session demo_env demo_calls (Error_then_stop None [] demo_date None) demo_page))
       (Track_stop demo_video) = 2
   \<and> map download (downloads (since demo_page
         (session demo_env demo_calls (Error_then_stop None [] demo_date None) demo_page))) =
       [''shadertoy-recording_2024-01-15_09-30-45.webm'']
   \<and> acquired demo_env = [demo_video, demo_audio]
   \<and> stops (since demo_page (startRecording_start_throws demo_env demo_page)) = []
   \<and> count_list (since demo_page (startRecording_start_throws demo_env demo_page))
       (Track_stop demo_video) = 0"
proof -
  let ?T = "since demo_page
      (session demo_env demo_calls (Error_then_stop None [] demo_date None) demo_page)"
  have tracks: "acquired demo_env = [demo_video, demo_audio]"
    by (simp add: acquired_def demo_env_def)
  have stream: "new_MediaStream (acquired demo_env) = [demo_video, demo_audio]"
    by (simp add: tracks demo_video_def demo_audio_def)
  have twice: "stops ?T = [demo_video, demo_audio, demo_video, demo_audio]"
    using stops_session_error_then_stop [OF demo_start, of demo_calls None "[]" demo_date None]
    by (simp add: stream)
  have count: "count_list ?T (Track_stop demo_video) = 2"
    by (simp add: count_list_stops twice demo_video_def demo_audio_def)
  obtain pre mid where shape: "?T =
        pre @ map Track_stop (new_MediaStream (acquired demo_env)) @ mid @
        ending_effects demo_handlers demo_date None (nonempty_chunks demo_calls @ nonempty_chunks []) @
        map Track_stop (new_MediaStream (acquired demo_env)) @
        [Console_log [Str ''All tracks stopped (onstop).'']]"
      "downloads pre = []" "downloads mid = []"
    using session_error_then_stop [OF demo_start, of demo_calls None "[]" demo_date None] by blast
  have name: "download_name ''video/webm'' demo_date = ''shadertoy-recording_2024-01-15_09-30-45.webm''"
    using timestamp_four_digit_year [OF demo_year]
    by (simp add: download_name_def fileExtension_def startsWith_def spec_timestamp_def
        demo_date_def pad_2 pad_4 digit_def)
  have saved: "map download (downloads ?T) = [''shadertoy-recording_2024-01-15_09-30-45.webm'']"
    unfolding shape(1) using shape(2,3)
    by (simp add: demo_chunks ending_effects_def demo_handlers_def name)
  have leak: "stops (since demo_page (startRecording_start_throws demo_env demo_page)) = []"
    by (rule stops_startRecording_start_throws [OF demo_start])
  have none: "count_list (since demo_page (startRecording_start_throws demo_env demo_page))
      (Track_stop demo_video) = 0"
    by (simp add: count_list_stops leak)
  show ?thesis
    using twice count saved tracks leak none by (simp only: simp_thms)
qed


section \<open>Selection of the type\<close>

text \<open>
  Claim C3. The selection returns the first candidate that the browser supports: of a
  list whose first entry is unsupported and whose second is supported it returns the
  second, and the type a started session records with is the first supported entry of
  the fixed list \<open>mimeTypes\<close>. When the browser supports none of them,
  \<^verbatim>\<open>startRecording\<close> alerts that no suitable type was found and returns: no recorder
  is created, no blob is built, nothing is downloaded, and every acquired track is
  stopped, once.
\<close>

theorem first_supported_profile_is_selected:
  "(\<not> supported A \<longrightarrow> supported B \<longrightarrow> array_find supported [A, B, C] = Some B)
   \<and> (startRecording e st = (Inr h, st1) \<longrightarrow>
        (\<exists>pre post. mimeTypes = pre @ selectedMimeType h # post
           \<and> isTypeSupported e (selectedMimeType h)
           \<and> (\<forall>m \<in> set pre. \<not> isTypeSupported e m)))
   \<and> (canvas e' \<noteq> None \<longrightarrow> acquired e' \<noteq> [] \<longrightarrow>
        (\<forall>m \<in> set mimeTypes. \<not> isTypeSupported e' m) \<longrightarrow>
        fst (startRecording e' st') = Inl NoMimeType
        \<and> Alert ''No suitable MIME type found for MediaRecorder.''
            \<in> set (since st' (snd (startRecording e' st')))
        \<and> mediaRecorder (snd (startRecording e' st')) = mediaRecorder st'
        \<and> blobs_built (since st' (snd (startRecording e' st'))) = []
        \<and> downloads (since st' (snd (startRecording e' st'))) = []
        \<and> stops (since st' (snd (startRecording e' st'))) = new_MediaStream (acquired e')
        \<and> (\<forall>t \<in> set (acquired e').
              released t (since st' (snd (startRecording e' st')))))"
proof (intro conjI impI)
  assume "\<not> supported A" and "supported B"
  then show "array_find supported [A, B, C] = Some B" by simp
next
  assume "startRecording e st = (Inr h, st1)"
  then show "\<exists>pre post. mimeTypes = pre @ selectedMimeType h # post
      \<and> isTypeSupported e (selectedMimeType h) \<and> (\<forall>m \<in> set pre. \<not> isTypeSupported e m)"
    using startRecording_Inr(3) array_find_first by fastforce
next
  assume canvas: "canvas e' \<noteq> None" and tracks: "acquired e' \<noteq> []"
    and none: "\<forall>m \<in> set mimeTypes. \<not> isTypeSupported e' m"
  let ?T = "since st' (snd (startRecording e' st'))"
  note facts = startRecording_unsupported [OF canvas tracks array_find_None [OF none], of st']
  obtain pre where pre: "?T =
        pre @ [Alert ''No suitable MIME type found for MediaRecorder.'',
               Console_error [Str ''No suitable MIME type found from the preferred list.'']] @
        map Track_stop (new_MediaStream (acquired e')) @ []"
      "stops pre = []" "downloads pre = []" "blobs_built pre = []"
    using facts(2) by blast
  have shape: "?T =
      (pre @ [Alert ''No suitable MIME type found for MediaRecorder.'',
              Console_error [Str ''No suitable MIME type found from the preferred list.'']]) @
      map Track_stop (new_MediaStream (acquired e')) @ []"
    using pre(1) by simp
  show "fst (startRecording e' st') = Inl NoMimeType" by (rule facts(1))
  show "mediaRecorder (snd (startRecording e' st')) = mediaRecorder st'" by (rule facts(3))
  show "Alert ''No suitable MIME type found for MediaRecorder.'' \<in> set ?T"
    unfolding pre(1) by simp
  show "blobs_built ?T = []" unfolding pre(1) using pre(4) by simp
  show "downloads ?T = []" unfolding pre(1) using pre(3) by simp
  show "stops ?T = new_MediaStream (acquired e')" unfolding pre(1) using pre(2) by simp
  show "\<forall>t \<in> set (acquired e'). released t ?T"
    unfolding shape using pre(2) by (intro ballI released_shape) simp_all
qed

theorem first_supported_profile_is_selected_witness:
  "\<not> isTypeSupported demo_env ''video/mp4'' \<and> isTypeSupported demo_env ''video/webm''
   \<and> array_find (isTypeSupported demo_env) [''video/mp4'', ''video/webm'', ''video/webm''] =
       Some ''video/webm''
   \<and> startRecording demo_env demo_page = (Inr demo_handlers, demo_started)
   \<and> canvas demo_env_unsupported \<noteq> None \<and> acquired demo_env_unsupported \<noteq> []
   \<and> list_all (\<lambda>m. \<not> isTypeSupported demo_env_unsupported m) mimeTypes
   \<and> fst (startRecording demo_env_unsupported demo_page) = Inl NoMimeType
   \<and> stops (since demo_page (snd (startRecording demo_env_unsupported demo_page))) =
       [demo_video, demo_audio]"
proof -
  have sup: "\<not> isTypeSupported demo_env ''video/mp4''" "isTypeSupported demo_env ''video/webm''"
    by (simp_all add: demo_env_def)
  have canvas: "canvas demo_env_unsupported \<noteq> None"
    and tracks: "acquired demo_env_unsupported \<noteq> []"
    and none: "\<forall>m \<in> set mimeTypes. \<not> isTypeSupported demo_env_unsupported m"
    by (simp_all add: demo_env_unsupported_def demo_env_def acquired_def)
  have stream: "new_MediaStream (acquired demo_env_unsupported) = [demo_video, demo_audio]"
    by (simp add: demo_env_unsupported_def demo_env_def acquired_def demo_video_def
        demo_audio_def)
  show ?thesis
    using first_supported_profile_is_selected
            [of "isTypeSupported demo_env" "''video/mp4''" "''video/webm''" "''video/webm''"
                demo_env demo_page demo_handlers demo_started demo_env_unsupported demo_page]
      sup demo_start canvas tracks none
    by (simp add: stream list_all_iff)
qed


section \<open>Recording without a microphone\<close>

text \<open>
  Claim C4. When the canvas exists and yields a track and the audio request is
  rejected, \<^verbatim>\<open>startRecording\<close> reports the rejection and goes on with the canvas
  tracks alone: it can only fail later, for want of a supported type or in the
  constructor. When neither happens the recorder records the video-only stream, with no
  audio bit rate and no track stopped, and a session that gathers a chunk ends in a
  download.
\<close>

theorem audio_denied_records_video_only:
  assumes "canvas e = Some videoTracks" and "videoTracks \<noteq> []" and "getUserMedia e = Inl err"
  shows "fst (startRecording e st) =
           (case array_find (isTypeSupported e) mimeTypes of
              None \<Rightarrow> Inl NoMimeType
            | Some m \<Rightarrow>
                (case ctor_throws e of
                   Some ex \<Rightarrow> Inl CtorFailed
                 | None \<Rightarrow> Inr \<lparr>combinedStream = new_MediaStream videoTracks,
                                selectedMimeType = m\<rparr>))
         \<and> Alert (''Could not get audio stream. Recording video only. Error: '' @ err_text err)
             \<in> set (since st (snd (startRecording e st)))
         \<and> (array_find (isTypeSupported e) mimeTypes = Some m \<longrightarrow> ctor_throws e = None \<longrightarrow>
              (\<exists>st1. startRecording e st =
                       (Inr \<lparr>combinedStream = new_MediaStream videoTracks, selectedMimeType = m\<rparr>, st1)
                 \<and> mediaRecorder st1 =
                     Some \<lparr>rstate = Recording, stream = new_MediaStream videoTracks, mimeType = m,
                           videoBitsPerSecond = 5000000, audioBitsPerSecond = None,
                           timeslice = Some 100\<rparr>
                 \<and> stops (since st st1) = []
                 \<and> (nonempty_chunks calls \<noteq> [] \<longrightarrow>
                      downloads (since st (session e calls (Stop_event now None) st)) =
                        [\<lparr>href = new_Blob (nonempty_chunks calls) m,
                          download = download_name m now\<rparr>])))"
  using startRecording_denied [OF assms, of st]
    startRecording_denied_started [OF assms, of m st calls now]
  by blast

theorem audio_denied_records_video_only_witness:
  "canvas demo_env_denied = Some [demo_video] \<and> [demo_video] \<noteq> []
   \<and> getUserMedia demo_env_denied = Inl (Error_obj ''Permission denied'')
   \<and> array_find (isTypeSupported demo_env_denied) mimeTypes = Some ''video/webm''
   \<and> ctor_throws demo_env_denied = None
   \<and> nonempty_chunks demo_calls \<noteq> []
   \<and> fst (startRecording demo_env_denied demo_page) =
       Inr \<lparr>combinedStream = [demo_video], selectedMimeType = ''video/webm''\<rparr>
   \<and> downloads (since demo_page
        (session demo_env_denied demo_calls (Stop_event demo_date None) demo_page)) =
       [\<lparr>href = new_Blob (nonempty_chunks demo_calls) ''video/webm'',
         download = download_name ''video/webm'' demo_date\<rparr>]"
proof -
  have c: "canvas demo_env_denied = Some [demo_video]"
    and n: "[demo_video] \<noteq> []"
    and g: "getUserMedia demo_env_denied = Inl (Error_obj ''Permission denied'')"
    and t: "ctor_throws demo_env_denied = None"
    by (simp_all add: demo_env_denied_def demo_env_def)
  have chunks: "nonempty_chunks demo_calls \<noteq> []"
    by (simp add: demo_chunks)
  show ?thesis
    using audio_denied_records_video_only
            [OF c n g, of demo_page "''video/webm''" demo_calls demo_date]
      c g t chunks demo_denied_find
    by auto
qed


section \<open>Stopping before any chunk arrived\<close>

text \<open>
  Claim C5. When the \<^verbatim>\<open>stop\<close> event arrives on a session that holds no chunk,
  \<^verbatim>\<open>onstop\<close> writes a warning to the console and raises no alert; the session builds
  no blob and triggers no download; every acquired track is stopped, once; and the
  recorder variable is cleared.
\<close>

theorem empty_recording_is_reported_and_released:
  assumes "startRecording e st = (Inr h, st1)" and "nonempty_chunks calls = []"
  shows "since (foldl (\<lambda>s c. during c s) st1 calls) (session e calls (Stop_event now fault) st) =
           [Console_log [Str ''MediaRecorder stopped.''],
            Console_warn [Str ''No data was recorded.'']] @
           map Track_stop (new_MediaStream (acquired e)) @
           [Console_log [Str ''All tracks stopped (onstop).'']]
         \<and> blobs_built (since st (session e calls (Stop_event now fault) st)) = []
         \<and> downloads (since st (session e calls (Stop_event now fault) st)) = []
         \<and> stops (since st (session e calls (Stop_event now fault) st)) =
             new_MediaStream (acquired e)
         \<and> (\<forall>t \<in> set (acquired e).
               released t (since st (session e calls (Stop_event now fault) st)))
         \<and> mediaRecorder (session e calls (Stop_event now fault) st) = None"
proof -
  let ?st2 = "foldl (\<lambda>s c. during c s) st1 calls"
  let ?T = "since st (session e calls (Stop_event now fault) st)"
  have blobs: "recordedBlobs ?st2 = []"
    using startRecording_Inr(6) [OF assms(1)] assms(2) by (simp add: recordedBlobs_calls)
  have handler: "since ?st2 (session e calls (Stop_event now fault) st) =
      [Console_log [Str ''MediaRecorder stopped.''], Console_warn [Str ''No data was recorded.'']] @
      map Track_stop (new_MediaStream (acquired e)) @
      [Console_log [Str ''All tracks stopped (onstop).'']]"
    using blobs startRecording_Inr(5) [OF assms(1)]
    by (simp add: session_def assms(1) since_def onstop_trace)
  obtain pre where pre: "?T =
        pre @ ending_effects h now fault (nonempty_chunks calls) @
        map Track_stop (new_MediaStream (acquired e)) @
        [Console_log [Str ''All tracks stopped (onstop).'']]"
      "stops pre = []" "downloads pre = []" "blobs_built pre = []"
    using session_stop_event [OF assms(1), of calls now fault] by blast
  have shape: "?T = (pre @ [Console_warn [Str ''No data was recorded.'']]) @
      map Track_stop (new_MediaStream (acquired e)) @
      [Console_log [Str ''All tracks stopped (onstop).'']]"
    using pre(1) assms(2) by simp
  have rel: "\<forall>t \<in> set (acquired e). released t ?T"
    unfolding shape using pre(2) by (intro ballI released_shape) simp_all
  have "blobs_built ?T = []" "downloads ?T = []" "stops ?T = new_MediaStream (acquired e)"
    unfolding shape using pre(2-4) by simp_all
  then show ?thesis
    using handler rel mediaRecorder_session_stop [OF assms(1)] by simp
qed

theorem empty_recording_is_reported_and_released_witness:
  "startRecording demo_env demo_page = (Inr demo_handlers, demo_started)
   \<and> nonempty_chunks [Data None, Stop_request] = []
   \<and> downloads (since demo_page
        (session demo_env [Data None, Stop_request] (Stop_event demo_date None) demo_page)) = []
   \<and> stops (since demo_page
        (session demo_env [Data None, Stop_request] (Stop_event demo_date None) demo_page))
      = [demo_video, demo_audio]"
proof -
  have none: "nonempty_chunks [Data None, Stop_request] = []"
    by (simp add: nonempty_chunks_def)
  have tracks: "new_MediaStream (acquired demo_env) = [demo_video, demo_audio]"
    by (simp add: acquired_def demo_env_def demo_video_def demo_audio_def)
  show ?thesis
    using empty_recording_is_reported_and_released [OF demo_start none, of demo_date None]
      demo_start none
    by (simp add: tracks)
qed


section \<open>The chunk sequence and the artifact\<close>

text \<open>
  Claim C6. The \<^verbatim>\<open>dataavailable\<close> events append exactly their chunks of non-zero size
  to \<^verbatim>\<open>recordedBlobs\<close>, in the order of the events; and a session that ends well
  downloads one blob, whose bytes are those chunks' bytes in that order.
\<close>

theorem chunks_appended_in_emission_order:
  assumes "startRecording e st = (Inr h, st1)" and "nonempty_chunks calls \<noteq> []"
  shows "recordedBlobs (foldl (\<lambda>s c. during c s) st0 calls) =
           recordedBlobs st0 @ filter (\<lambda>b. 0 < size_of b) (chunks_of calls)
         \<and> recordedBlobs (foldl (\<lambda>s c. during c s) st1 calls) =
             filter (\<lambda>b. 0 < size_of b) (chunks_of calls)
         \<and> map href (downloads (since st (session e calls (Stop_event now None) st))) =
             [new_Blob (filter (\<lambda>b. 0 < size_of b) (chunks_of calls)) (selectedMimeType h)]
         \<and> blob_bytes (new_Blob (filter (\<lambda>b. 0 < size_of b) (chunks_of calls)) (selectedMimeType h)) =
             concat (map blob_bytes (filter (\<lambda>b. 0 < size_of b) (chunks_of calls)))"
proof -
  obtain pre where pre: "since st (session e calls (Stop_event now None) st) =
        pre @ ending_effects h now None (nonempty_chunks calls) @
        map Track_stop (new_MediaStream (acquired e)) @
        [Console_log [Str ''All tracks stopped (onstop).'']]" "downloads pre = []"
    using session_stop_event [OF assms(1), of calls now None] by blast
  have "map href (downloads (since st (session e calls (Stop_event now None) st))) =
      [new_Blob (nonempty_chunks calls) (selectedMimeType h)]"
    unfolding pre(1) using pre(2) assms(2) by (simp add: ending_effects_def)
  then show ?thesis
    using startRecording_Inr(6) [OF assms(1)]
    by (simp add: recordedBlobs_calls nonempty_chunks_def)
qed

theorem chunks_appended_in_emission_order_witness:
  "startRecording demo_env demo_page = (Inr demo_handlers, demo_started)
   \<and> nonempty_chunks demo_calls \<noteq> []
   \<and> recordedBlobs (foldl (\<lambda>s c. during c s) demo_started demo_calls) = [demo_chunk]
   \<and> map href (downloads (since demo_page
        (session demo_env demo_calls (Stop_event demo_date None) demo_page)))
      = [\<lparr>blob_bytes = [1, 2, 3], blob_type = ''video/webm''\<rparr>]"
proof -
  have chunks: "nonempty_chunks demo_calls \<noteq> []"
    by (simp add: demo_chunks)
  have kept: "filter (\<lambda>b. 0 < size_of b) (chunks_of demo_calls) = [demo_chunk]"
    using demo_chunks by (simp add: nonempty_chunks_def)
  show ?thesis
    using chunks_appended_in_emission_order [OF demo_start chunks, of demo_page demo_date]
      demo_start chunks
    by (simp add: kept new_Blob_def normalized_type_webm demo_chunk_def demo_handlers_def)
qed


section \<open>Stopping when nothing records\<close>

text \<open>
  Claim C7. \<^verbatim>\<open>stopRecording\<close> on a page whose recorder is absent, or neither recording
  nor paused, only writes a warning to the console: it sends no stop signal, stops no
  track, builds no blob, triggers no download and leaves the module variables as they
  were.
\<close>

theorem stopRecording_inactive_is_reported_noop:
  assumes "\<not> recording_or_paused st"
  shows "since st (stopRecording st) =
           [Console_warn [Str ''stopRecording called but mediaRecorder not active or not initialized properly.'']]
         \<and> stop_signals (since st (stopRecording st)) = []
         \<and> stops (since st (stopRecording st)) = []
         \<and> blobs_built (since st (stopRecording st)) = []
         \<and> downloads (since st (stopRecording st)) = []
         \<and> mediaRecorder (stopRecording st) = mediaRecorder st
         \<and> recordedBlobs (stopRecording st) = recordedBlobs st"
  using assms
  by (auto simp: recording_or_paused_def stopRecording_def since_def split: option.splits)

theorem stopRecording_inactive_is_reported_noop_witness:
  "\<not> recording_or_paused (stopRecording (snd (startRecording demo_env demo_page)))
   \<and> stops (since (stopRecording (snd (startRecording demo_env demo_page)))
        (stopRecording (stopRecording (snd (startRecording demo_env demo_page))))) = []"
  using stopRecording_inactive_is_reported_noop
          [of "stopRecording (snd (startRecording demo_env demo_page))"]
  by (simp add: recording_or_paused_def stopRecording_def startRecording_def demo_env_def
      demo_page_def mimeTypes_def Let_def)


section \<open>Configuration of the recorder\<close>

text \<open>
  Claim C8. The recorder of a started session was constructed with a video bit rate of
  5000000 and started with a time slice of 100 milliseconds. Its audio bit rate is
  128000 when the audio stream was granted and undefined otherwise; with streams as the
  browser promises them, that is: 128000 exactly when the recorded stream holds an audio
  track.
\<close>

theorem encoder_configuration:
  assumes "startRecording e st = (Inr h, st1)"
  shows "\<exists>r. mediaRecorder st1 = Some r \<and> rstate r = Recording
           \<and> stream r = combinedStream h \<and> mimeType r = selectedMimeType h
           \<and> videoBitsPerSecond r = 5000000
           \<and> audioBitsPerSecond r =
               (case getUserMedia e of Inr ts \<Rightarrow> Some 128000 | Inl err \<Rightarrow> None)
           \<and> timeslice r = Some 100
           \<and> Recorder_new (r\<lparr>rstate := Inactive, timeslice := None\<rparr>) \<in> set (since st st1)
           \<and> Recorder_start (r\<lparr>rstate := Inactive, timeslice := None\<rparr>) 100
               \<in> set (since st st1)
           \<and> (tracks_as_requested e \<longrightarrow>
                (audioBitsPerSecond r = Some 128000 \<longleftrightarrow> has_audio_track (stream r))
                \<and> (audioBitsPerSecond r = None \<longleftrightarrow> \<not> has_audio_track (stream r)))"
proof -
  obtain r0 where r0: "mediaRecorder st1 = Some (r0\<lparr>rstate := Recording, timeslice := Some 100\<rparr>)"
      "rstate r0 = Inactive" "timeslice r0 = None"
      "Recorder_new r0 \<in> set (since st st1)" "Recorder_start r0 100 \<in> set (since st st1)"
    using startRecording_Inr_recorder_calls [OF assms] by blast
  let ?r = "r0\<lparr>rstate := Recording, timeslice := Some 100\<rparr>"
  have orig: "?r\<lparr>rstate := Inactive, timeslice := None\<rparr> = r0"
    using r0(2,3) by simp
  note cfg = startRecording_Inr(7) [OF assms]
  have fields: "stream ?r = combinedStream h" "mimeType ?r = selectedMimeType h"
      "videoBitsPerSecond ?r = 5000000"
      "audioBitsPerSecond ?r = (case getUserMedia e of Inr ts \<Rightarrow> Some 128000 | Inl err \<Rightarrow> None)"
      "rstate ?r = Recording" "timeslice ?r = Some 100"
    using cfg r0(1) by (simp_all del: recorder.simps add: recorder.simps(1-6))
  have audio: "tracks_as_requested e \<longrightarrow>
      (audioBitsPerSecond ?r = Some 128000 \<longleftrightarrow> has_audio_track (stream ?r))
      \<and> (audioBitsPerSecond ?r = None \<longleftrightarrow> \<not> has_audio_track (stream ?r))"
    using has_audio_track_acquired [OF _ startRecording_Inr(1) [OF assms]]
      startRecording_Inr(5) [OF assms] fields(1,4)
    by (auto split: sum.splits)
  show ?thesis
    by (rule exI [of _ ?r], unfold orig) (use r0(1,4,5) fields audio in blast)
qed

theorem encoder_configuration_witness:
  "startRecording demo_env demo_page = (Inr demo_handlers, demo_started)
   \<and> tracks_as_requested demo_env
   \<and> mediaRecorder demo_started =
       Some \<lparr>rstate = Recording, stream = [demo_video, demo_audio], mimeType = ''video/webm'',
             videoBitsPerSecond = 5000000, audioBitsPerSecond = Some 128000,
             timeslice = Some 100\<rparr>
   \<and> has_audio_track [demo_video, demo_audio]"
proof -
  have asked: "tracks_as_requested demo_env"
    by (simp add: tracks_as_requested_def demo_env_def demo_video_def demo_audio_def)
  have audio: "getUserMedia demo_env = Inr [demo_audio]"
    by (simp add: demo_env_def)
  obtain r where r: "mediaRecorder demo_started = Some r" "rstate r = Recording"
      "stream r = combinedStream demo_handlers" "mimeType r = selectedMimeType demo_handlers"
      "videoBitsPerSecond r = 5000000" "audioBitsPerSecond r = Some 128000"
      "timeslice r = Some 100" "has_audio_track (stream r)"
    using encoder_configuration [OF demo_start] asked audio by auto
  have "r = \<lparr>rstate = Recording, stream = [demo_video, demo_audio], mimeType = ''video/webm'',
             videoBitsPerSecond = 5000000, audioBitsPerSecond = Some 128000,
             timeslice = Some 100\<rparr>"
    using r(2-7) by (cases r) (simp add: demo_handlers_def)
  then show ?thesis
    using r(1,3,8) demo_start asked by (simp add: demo_handlers_def)
qed


section \<open>The file name of the older script\<close>

text \<open>
  Claim C9. In \<^verbatim>\<open>shadertoy-recorder/content.js\<close> the download of a session that holds
  a chunk is named with the extension \<^verbatim>\<open>.mp4\<close>, whatever type was selected, WebM
  included.
\<close>

theorem legacy_download_is_always_mp4:
  assumes "recordedBlobs st \<noteq> []"
  shows "map download (downloads (since st (legacy_onstop h now None st))) =
           [''shadertoy-recording_'' @ timestamp now @ ''.mp4'']
         \<and> (\<forall>a \<in> set (downloads (since st (legacy_onstop h now fault st))).
               download a = ''shadertoy-recording_'' @ timestamp now @ ''.mp4'')"
proof -
  have one: "map download (downloads (since st (legacy_onstop h now None st))) =
      [legacy_download_name now]"
    using assms by (simp add: legacy_onstop_def since_def)
  have all: "\<forall>a \<in> set (downloads (since st (legacy_onstop h now fault st))).
      download a = legacy_download_name now"
  proof (cases fault)
    case None
    then show ?thesis using assms by (simp add: legacy_onstop_def since_def)
  next
    case (Some cx)
    obtain c ex where cx: "cx = (c, ex)" by (cases cx)
    show ?thesis
      using assms downloads_legacy_faulty [of c h now "recordedBlobs st"]
      by (auto simp: Some cx legacy_onstop_def since_def)
  qed
  show ?thesis
    using one all by (simp add: legacy_download_name_def)
qed

theorem legacy_download_is_always_mp4_witness:
  "fst (legacy_startRecording demo_env demo_page) = Inr demo_legacy_handlers
   \<and> selectedMimeType demo_legacy_handlers = ''video/webm''
   \<and> recordedBlobs (demo_page\<lparr>recordedBlobs := [demo_chunk]\<rparr>) \<noteq> []
   \<and> map download
        (downloads (since (demo_page\<lparr>recordedBlobs := [demo_chunk]\<rparr>)
           (legacy_onstop demo_legacy_handlers demo_date None
              (demo_page\<lparr>recordedBlobs := [demo_chunk]\<rparr>))))
      = [''shadertoy-recording_2024-01-15_09-30-45.mp4'']"
proof -
  have blobs: "recordedBlobs (demo_page\<lparr>recordedBlobs := [demo_chunk]\<rparr>) \<noteq> []"
    by simp
  have start: "fst (legacy_startRecording demo_env demo_page) = Inr demo_legacy_handlers"
    by (simp add: legacy_startRecording_def demo_env_def legacy_mimeTypes_def Let_def
        demo_legacy_handlers_def)
  have stamp: "timestamp demo_date = ''2024-01-15_09-30-45''"
    using timestamp_four_digit_year [OF demo_year]
    by (simp add: spec_timestamp_def demo_date_def pad_2 pad_4 digit_def)
  show ?thesis
    using legacy_download_is_always_mp4 [OF blobs, of demo_legacy_handlers demo_date None]
      blobs start
    by (simp add: stamp demo_legacy_handlers_def)
qed


section \<open>No chunk survives a new start\<close>

text \<open>
  Claim C10. A call of \<^verbatim>\<open>startRecording\<close> that finds the canvas leaves
  \<^verbatim>\<open>recordedBlobs\<close> empty, whatever it held before; in particular it is empty when
  the recorder has been started. The blob of the session is then built from the chunks
  of this session's events only.
\<close>

theorem startRecording_resets_recordedBlobs:
  assumes "startRecording e st = (Inr h, st1)" and "canvas e' \<noteq> None"
  shows "recordedBlobs (snd (startRecording e' st')) = []
         \<and> recordedBlobs st1 = []
         \<and> recordedBlobs (foldl (\<lambda>s c. during c s) st1 calls) = nonempty_chunks calls
         \<and> blobs_built (since st (session e calls (Stop_event now None) st)) =
             (if nonempty_chunks calls = [] then []
              else [new_Blob (nonempty_chunks calls) (selectedMimeType h)])
         \<and> set (blobs_built (since st (session e calls (Stop_event now fault) st))) \<subseteq>
             {new_Blob (nonempty_chunks calls) (selectedMimeType h)}"
proof -
  obtain pre where pre: "since st (session e calls (Stop_event now None) st) =
        pre @ ending_effects h now None (nonempty_chunks calls) @
        map Track_stop (new_MediaStream (acquired e)) @
        [Console_log [Str ''All tracks stopped (onstop).'']]" "blobs_built pre = []"
    using session_stop_event [OF assms(1), of calls now None] by blast
  obtain pre' where pre': "since st (session e calls (Stop_event now fault) st) =
        pre' @ ending_effects h now fault (nonempty_chunks calls) @
        map Track_stop (new_MediaStream (acquired e)) @
        [Console_log [Str ''All tracks stopped (onstop).'']]" "blobs_built pre' = []"
    using session_stop_event [OF assms(1), of calls now fault] by blast
  have one: "blobs_built (since st (session e calls (Stop_event now None) st)) =
      (if nonempty_chunks calls = [] then []
       else [new_Blob (nonempty_chunks calls) (selectedMimeType h)])"
    unfolding pre(1) using pre(2) by (simp add: ending_effects_def)
  have all: "set (blobs_built (since st (session e calls (Stop_event now fault) st))) \<subseteq>
      {new_Blob (nonempty_chunks calls) (selectedMimeType h)}"
    unfolding pre'(1) using pre'(2)
      blobs_built_save_effects [of h now fault "nonempty_chunks calls"]
    by (auto simp: ending_effects_def)
  show ?thesis
    using one all startRecording_Inr(6) [OF assms(1)] recordedBlobs_startRecording [OF assms(2)]
    by (simp add: recordedBlobs_calls)
qed

theorem startRecording_resets_recordedBlobs_witness:
  "startRecording demo_env (demo_page\<lparr>recordedBlobs := [demo_chunk, demo_chunk]\<rparr>) =
     (Inr demo_handlers, snd (startRecording demo_env (demo_page\<lparr>recordedBlobs := [demo_chunk, demo_chunk]\<rparr>)))
   \<and> canvas demo_env_unsupported \<noteq> None
   \<and> recordedBlobs (snd (startRecording demo_env_unsupported
          (demo_page\<lparr>recordedBlobs := [demo_chunk, demo_chunk]\<rparr>))) = []
   \<and> recordedBlobs (snd (startRecording demo_env (demo_page\<lparr>recordedBlobs := [demo_chunk, demo_chunk]\<rparr>))) = []
   \<and> blobs_built (since (demo_page\<lparr>recordedBlobs := [demo_chunk, demo_chunk]\<rparr>)
        (session demo_env demo_calls (Stop_event demo_date None)
           (demo_page\<lparr>recordedBlobs := [demo_chunk, demo_chunk]\<rparr>)))
      = [\<lparr>blob_bytes = [1, 2, 3], blob_type = ''video/webm''\<rparr>]"
proof -
  let ?st = "demo_page\<lparr>recordedBlobs := [demo_chunk, demo_chunk]\<rparr>"
  have start: "startRecording demo_env ?st = (Inr demo_handlers, snd (startRecording demo_env ?st))"
    by (simp add: demo_handlers_def startRecording_def demo_env_def
        demo_video_def demo_audio_def mimeTypes_def Let_def)
  have canvas: "canvas demo_env_unsupported \<noteq> None"
    by (simp add: demo_env_unsupported_def demo_env_def)
  show ?thesis
    using startRecording_resets_recordedBlobs
            [OF start canvas, of ?st demo_calls demo_date None] start canvas
    by (simp add: demo_chunks new_Blob_def normalized_type_webm demo_chunk_def demo_handlers_def)
qed


section \<open>Where the older script and late dates differ\<close>

text \<open>
  The older script neither stops the tracks nor saves anything when no chunk was
  recorded, falls back to \<^verbatim>\<open>video/webm\<close> when the browser supports none of its
  candidates, and is silent when asked to stop while nothing records. Beyond the year
  9999, \<^verbatim>\<open>toISOString\<close> prints a sign and six digits, and the first nineteen
  characters no longer end at the seconds.
\<close>

lemma legacy_onstop_empty:
  "recordedBlobs st = [] \<Longrightarrow>
     since st (legacy_onstop h now fault st) = [Console_error [Str ''No data was recorded'']]"
  by (simp add: legacy_onstop_def since_def)

lemma legacy_startRecording_fallback:
  assumes "canvas e = Some tracks" and "\<forall>m \<in> set legacy_mimeTypes. \<not> isTypeSupported e m"
    and "ctor_throws e = None"
  shows "fst (legacy_startRecording e st) =
           Inr \<lparr>combinedStream = tracks, selectedMimeType = ''video/webm''\<rparr>"
  using assms array_find_None [of legacy_mimeTypes "isTypeSupported e"]
  by (simp add: legacy_startRecording_def Let_def)

lemma legacy_stopRecording_silent:
  "\<not> (\<exists>r. mediaRecorder st = Some r \<and> rstate r = Recording) \<Longrightarrow> legacy_stopRecording st = st"
  by (auto simp: legacy_stopRecording_def split: option.splits)

lemma timestamp_five_digit_year:
  "timestamp (demo_date\<lparr>utc_year := 10000\<rparr>) = ''+010000-01-15_09-30''"
  by (simp add: timestamp_def toISOString_def year_string_def replace_colons_periods_def
      demo_date_def pad_2 pad_3 pad_6 digit_def)

end
